theory Spec2Isabelle
  imports Complex_Main
begin

section \<open>Personal Library Manager: the Library Store\<close>

text \<open>
  The development follows \<^verbatim>\<open>Ramdan_Coding_Night_11/Personal-Library-Manager/main.py\<close>:
  the class \<^verbatim>\<open>Book\<close> and the class \<^verbatim>\<open>LibraryManager\<close>.
\<close>

subsection \<open>Python strings\<close>

text \<open>
  A Python \<^verbatim>\<open>str\<close> is a list of characters; a character of type \<^typ>\<open>char\<close> stands for
  the code point of the same number, U+0000 to U+00FF. On that range \<^verbatim>\<open>str.lower\<close> works
  character by character: it moves the letters A to Z and the upper-case letters of
  U+00C0 to U+00DE (the multiplication sign U+00D7 is no letter) up by 32.
\<close>

definition lower_char :: "char \<Rightarrow> char" where
  "lower_char c =
     (let n = (of_char c :: nat)
      in if (65 \<le> n \<and> n \<le> 90) \<or> (192 \<le> n \<and> n \<le> 222 \<and> n \<noteq> 215)
         then char_of (n + 32) else c)"

definition lower :: "string \<Rightarrow> string" where
  "lower s = map lower_char s"

text \<open>\<^verbatim>\<open>s.startswith(q)\<close> and the substring test \<^verbatim>\<open>q in s\<close>.\<close>

fun startswith :: "string \<Rightarrow> string \<Rightarrow> bool" where
  "startswith s [] = True"
| "startswith [] (c # q) = False"
| "startswith (d # s) (c # q) = (d = c \<and> startswith s q)"

fun str_in :: "string \<Rightarrow> string \<Rightarrow> bool" where
  "str_in q [] = (q = [])"
| "str_in q (d # s) = (startswith (d # s) q \<or> str_in q s)"

subsection \<open>The class Book\<close>

text \<open>
  The fields carry the types of the constructor's annotations; \<^verbatim>\<open>Optional[int]\<close> and
  \<^verbatim>\<open>Optional[float]\<close> are options. A rating is only stored and compared with 0 and 5,
  never computed with, so a float is read as the rational number it denotes. The field
  \<^verbatim>\<open>notes\<close> is written \<open>notes'\<close>.
\<close>

record book =
  title :: string
  author :: string
  isbn :: string
  genre :: string
  publication_year :: "int option"
  publisher :: string
  pages :: "int option"
  status :: string
  date_added :: string
  rating :: "rat option"
  notes' :: string

text \<open>
  \<^verbatim>\<open>Book.__init__\<close>. The first argument is what
  \<^verbatim>\<open>datetime.datetime.now().strftime("%Y-%m-%d")\<close> returns at the call;
  \<^verbatim>\<open>date_added or ...\<close> takes it when \<^verbatim>\<open>date_added\<close> is \<^verbatim>\<open>None\<close> or empty.
\<close>

definition Book ::
  "string \<Rightarrow> string \<Rightarrow> string \<Rightarrow> string \<Rightarrow> string \<Rightarrow> int option \<Rightarrow> string \<Rightarrow> int option
     \<Rightarrow> string \<Rightarrow> string option \<Rightarrow> rat option \<Rightarrow> string \<Rightarrow> book" where
  "Book today t a i g y p n s d r m =
     \<lparr>title = t, author = a, isbn = i, genre = g, publication_year = y, publisher = p,
      pages = n, status = s,
      date_added = (case d of None \<Rightarrow> today | Some x \<Rightarrow> if x = [] then today else x),
      rating = r, notes' = m\<rparr>"

subsection \<open>Persisted form\<close>

text \<open>
  What \<^verbatim>\<open>json.load\<close> returns and \<^verbatim>\<open>json.dump\<close> takes: \<^verbatim>\<open>None\<close>, a bool, an int, a
  float, a str, a list, or a dict with str keys (kept as the list of its items, in
  order; the keys of a dict are distinct).
\<close>

datatype json =
    JNull
  | JBool bool
  | JInt int
  | JFloat rat
  | JStr string
  | JArr "json list"
  | JObj "(string \<times> json) list"

text \<open>\<^verbatim>\<open>Book.to_dict\<close>: the eleven items, in the order of the source.\<close>

definition json_of_int :: "int option \<Rightarrow> json" where
  "json_of_int x = (case x of None \<Rightarrow> JNull | Some n \<Rightarrow> JInt n)"

definition json_of_float :: "rat option \<Rightarrow> json" where
  "json_of_float x = (case x of None \<Rightarrow> JNull | Some r \<Rightarrow> JFloat r)"

definition to_dict :: "book \<Rightarrow> (string \<times> json) list" where
  "to_dict b =
     [(''title'', JStr (title b)),
      (''author'', JStr (author b)),
      (''isbn'', JStr (isbn b)),
      (''genre'', JStr (genre b)),
      (''publication_year'', json_of_int (publication_year b)),
      (''publisher'', JStr (publisher b)),
      (''pages'', json_of_int (pages b)),
      (''status'', JStr (status b)),
      (''date_added'', JStr (date_added b)),
      (''rating'', json_of_float (rating b)),
      (''notes'', JStr (notes' b))]"

text \<open>
  The exceptions of the model: \<open>TypeError\<close>, \<open>AttributeError\<close>, \<open>UnicodeDecodeError\<close> and
  \<open>RecursionError\<close> are Python's. \<open>Unmodelled\<close> is no exception: it marks persisted values
  whose type the annotations of \<^verbatim>\<open>Book.__init__\<close> exclude (a number as title, say).
  Python would build a Book holding such a value; the typed record cannot, and nothing
  is stated about such content.
\<close>

datatype exn = TypeError | AttributeError | UnicodeDecodeError | RecursionError | Unmodelled

text \<open>The parameters of \<^verbatim>\<open>Book.__init__\<close> and the types annotated for them.\<close>

definition param_names :: "string list" where
  "param_names =
     [''title'', ''author'', ''isbn'', ''genre'', ''publication_year'', ''publisher'',
      ''pages'', ''status'', ''date_added'', ''rating'', ''notes'']"

fun is_str :: "json \<Rightarrow> bool" where
  "is_str (JStr s) = True"
| "is_str j = False"

fun is_opt_str :: "json \<Rightarrow> bool" where
  "is_opt_str JNull = True"
| "is_opt_str (JStr s) = True"
| "is_opt_str j = False"

fun is_opt_int :: "json \<Rightarrow> bool" where
  "is_opt_int JNull = True"
| "is_opt_int (JInt n) = True"
| "is_opt_int j = False"

fun is_opt_float :: "json \<Rightarrow> bool" where
  "is_opt_float JNull = True"
| "is_opt_float (JInt n) = True"
| "is_opt_float (JFloat r) = True"
| "is_opt_float j = False"

definition annotated :: "string \<times> json \<Rightarrow> bool" where
  "annotated kv =
     (let k = fst kv; v = snd kv
      in if k = ''publication_year'' \<or> k = ''pages'' then is_opt_int v
         else if k = ''rating'' then is_opt_float v
         else if k = ''date_added'' then is_opt_str v
         else is_str v)"

text \<open>Reading a keyword argument, with the default of the signature when it is absent.\<close>

definition str_arg :: "(string \<times> json) list \<Rightarrow> string \<Rightarrow> string \<Rightarrow> string" where
  "str_arg d k dflt = (case map_of d k of Some (JStr s) \<Rightarrow> s | _ \<Rightarrow> dflt)"

definition opt_str_arg :: "(string \<times> json) list \<Rightarrow> string \<Rightarrow> string option" where
  "opt_str_arg d k = (case map_of d k of Some (JStr s) \<Rightarrow> Some s | _ \<Rightarrow> None)"

definition int_arg :: "(string \<times> json) list \<Rightarrow> string \<Rightarrow> int option" where
  "int_arg d k = (case map_of d k of Some (JInt n) \<Rightarrow> Some n | _ \<Rightarrow> None)"

definition float_arg :: "(string \<times> json) list \<Rightarrow> string \<Rightarrow> rat option" where
  "float_arg d k =
     (case map_of d k of Some (JFloat r) \<Rightarrow> Some r | Some (JInt n) \<Rightarrow> Some (of_int n)
      | _ \<Rightarrow> None)"

text \<open>
  \<^verbatim>\<open>Book.from_dict\<close>, that is \<^verbatim>\<open>cls(**data)\<close>: a \<^verbatim>\<open>TypeError\<close> when \<^verbatim>\<open>data\<close> is no
  mapping, when a key is no parameter of the constructor, and when \<^verbatim>\<open>title\<close> or
  \<^verbatim>\<open>author\<close> is missing.
\<close>

definition from_dict :: "string \<Rightarrow> json \<Rightarrow> exn + book" where
  "from_dict today data =
     (case data of
        JObj d \<Rightarrow>
          if \<not> list_all (\<lambda>k. k \<in> set param_names) (map fst d) then Inl TypeError
          else if map_of d ''title'' = None \<or> map_of d ''author'' = None then Inl TypeError
          else if \<not> list_all annotated d then Inl Unmodelled
          else Inr (Book today
                 (str_arg d ''title'' []) (str_arg d ''author'' [])
                 (str_arg d ''isbn'' []) (str_arg d ''genre'' [])
                 (int_arg d ''publication_year'') (str_arg d ''publisher'' [])
                 (int_arg d ''pages'') (str_arg d ''status'' ''Unread'')
                 (opt_str_arg d ''date_added'') (float_arg d ''rating'')
                 (str_arg d ''notes'' []))
      | _ \<Rightarrow> Inl TypeError)"

text \<open>
  The list comprehension \<^verbatim>\<open>[Book.from_dict(book) for book in books_data]\<close>: iterating
  the loaded value (a list gives its elements, a dict its keys, a str its characters,
  anything else raises), then building the Books from left to right, the first exception
  ending the comprehension.
\<close>

fun iterate :: "json \<Rightarrow> exn + json list" where
  "iterate (JArr xs) = Inr xs"
| "iterate (JObj d) = Inr (map (\<lambda>kv. JStr (fst kv)) d)"
| "iterate (JStr s) = Inr (map (\<lambda>c. JStr [c]) s)"
| "iterate j = Inl TypeError"

fun from_dicts :: "string \<Rightarrow> json list \<Rightarrow> exn + book list" where
  "from_dicts today [] = Inr []"
| "from_dicts today (x # xs) =
     (case from_dict today x of
        Inl e \<Rightarrow> Inl e
      | Inr b \<Rightarrow> (case from_dicts today xs of Inl e \<Rightarrow> Inl e | Inr bs \<Rightarrow> Inr (b # bs)))"

subsection \<open>Book objects\<close>

text \<open>
  A Book is a mutable object and \<^verbatim>\<open>self.books\<close> is a list of references to such
  objects; one object may be listed more than once (\<^verbatim>\<open>add_book\<close> called twice with the
  same Book), and an assignment to an attribute is seen through every reference to the
  object. The objects that exist form the heap; a reference is the position of its
  object there, and a new object is put at the end. No object is ever removed from the
  heap, so a reference that was handed out stays valid.
\<close>

type_synonym ref = nat

subsection \<open>The class LibraryManager\<close>

text \<open>
  The file at \<^verbatim>\<open>data_file\<close>, when it exists, is a regular file that can be read and
  written. What it holds is one of: bytes that are no text in the encoding of
  \<^verbatim>\<open>open\<close>, on which reading raises \<^verbatim>\<open>UnicodeDecodeError\<close>; text that \<^verbatim>\<open>json.load\<close>
  rejects with \<^verbatim>\<open>json.JSONDecodeError\<close>; text nested so deeply that \<^verbatim>\<open>json.load\<close> raises
  \<^verbatim>\<open>RecursionError\<close>; or a document that \<^verbatim>\<open>json.load\<close> turns into a value.
  \<^verbatim>\<open>json.dump\<close> writes the document of the value it is given. The messages sent to the
  page (\<^verbatim>\<open>st.success\<close>, \<^verbatim>\<open>st.error\<close>, \<^verbatim>\<open>st.info\<close>) are kept in a log.
\<close>

datatype file_content = Bad_encoding | Bad_json | Too_deep | Document json

datatype msg =
    Loaded nat
  | DecodeFailed
  | NoFile
  | Saved
  | Added string string
  | Removed string
  | NotFound string
  | StatusUpdated string string
  | RatingRange
  | Rated string rat
  | NotesAdded string

datatype notice = Success msg | Error msg | Info msg

text \<open>
  The state a method runs in: the heap of Book objects, the attribute \<^verbatim>\<open>books\<close> of the
  store, what the file system holds at the path \<^verbatim>\<open>data_file\<close> (\<open>None\<close> when
  \<^verbatim>\<open>os.path.exists\<close> is false), and the log of the page.
\<close>

record library =
  heap :: "book list"
  books :: "ref list"
  data_file :: "file_content option"
  notices :: "notice list"

text \<open>The object behind a reference, and the Books of the collection in their order.\<close>

definition obj :: "library \<Rightarrow> ref \<Rightarrow> book" where
  "obj s r = heap s ! r"

definition collection :: "library \<Rightarrow> book list" where
  "collection s = map (obj s) (books s)"

definition notify :: "notice \<Rightarrow> library \<Rightarrow> library" where
  "notify n s = s\<lparr>notices := notices s @ [n]\<rparr>"

text \<open>
  \<^verbatim>\<open>load_library\<close>. Only \<^verbatim>\<open>json.JSONDecodeError\<close> is caught; any other exception
  leaves the method, and the constructor. The Books that \<^verbatim>\<open>from_dict\<close> builds are new
  objects, put on the heap in the order of the records; \<^verbatim>\<open>self.books\<close> is assigned
  only when all of them were built.
\<close>

definition load_library :: "string \<Rightarrow> library \<Rightarrow> exn + library" where
  "load_library today s =
     (case data_file s of
        Some c \<Rightarrow>
          (case c of
             Document j \<Rightarrow>
               (case iterate j of
                  Inl e \<Rightarrow> Inl e
                | Inr xs \<Rightarrow>
                    (case from_dicts today xs of
                       Inl e \<Rightarrow> Inl e
                     | Inr bs \<Rightarrow>
                         Inr (notify (Success (Loaded (length bs)))
                               (s\<lparr>heap := heap s @ bs,
                                  books := [length (heap s) ..< length (heap s) + length bs]\<rparr>))))
           | Bad_json \<Rightarrow> Inr (notify (Error DecodeFailed) s)
           | Bad_encoding \<Rightarrow> Inl UnicodeDecodeError
           | Too_deep \<Rightarrow> Inl RecursionError)
      | None \<Rightarrow> Inr (notify (Info NoFile) s))"

text \<open>
  \<^verbatim>\<open>LibraryManager.__init__\<close>, called in the state given: the new store starts with the
  empty list and loads.
\<close>

definition LibraryManager :: "string \<Rightarrow> library \<Rightarrow> exn + library" where
  "LibraryManager today s = load_library today (s\<lparr>books := []\<rparr>)"

definition save_library :: "library \<Rightarrow> library" where
  "save_library s =
     notify (Success Saved)
       (s\<lparr>data_file := Some (Document (JArr (map (\<lambda>r. JObj (to_dict (obj s r))) (books s))))\<rparr>)"

definition add_book :: "library \<Rightarrow> ref \<Rightarrow> library" where
  "add_book s book =
     save_library (notify (Success (Added (title (obj s book)) (author (obj s book))))
                    (s\<lparr>books := books s @ [book]\<rparr>))"

definition remove_book :: "library \<Rightarrow> string \<Rightarrow> bool \<times> library" where
  "remove_book s book_title =
     (let initial_count = length (books s);
          s1 = s\<lparr>books := filter (\<lambda>book. lower (title (obj s book)) \<noteq> lower book_title) (books s)\<rparr>
      in if length (books s1) < initial_count
         then (True, save_library (notify (Success (Removed book_title)) s1))
         else (False, notify (Error (NotFound book_title)) s1))"

text \<open>
  \<^verbatim>\<open>get_book_by_title\<close>: the loop over \<^verbatim>\<open>self.books\<close>, returning the first reference whose
  object has a matching title.
\<close>

fun find_book :: "book list \<Rightarrow> ref list \<Rightarrow> string \<Rightarrow> ref option" where
  "find_book h [] t = None"
| "find_book h (book # rest) t =
     (if lower (title (h ! book)) = lower t then Some book else find_book h rest t)"

definition get_book_by_title :: "library \<Rightarrow> string \<Rightarrow> ref option" where
  "get_book_by_title s t = find_book (heap s) (books s) t"

text \<open>
  An assignment \<^verbatim>\<open>book.attr = value\<close>: the object behind the reference changes, on the
  heap; every entry of \<^verbatim>\<open>self.books\<close> that refers to it shows the change.
\<close>

definition assign :: "ref \<Rightarrow> (book \<Rightarrow> book) \<Rightarrow> library \<Rightarrow> library" where
  "assign book f s = s\<lparr>heap := (heap s)[book := f (obj s book)]\<rparr>"

definition update_book_status :: "library \<Rightarrow> string \<Rightarrow> string \<Rightarrow> bool \<times> library" where
  "update_book_status s t new_status =
     (case get_book_by_title s t of
        Some book \<Rightarrow>
          (let s1 = assign book (\<lambda>b. b\<lparr>status := new_status\<rparr>) s
           in (True, save_library
                       (notify (Success (StatusUpdated (title (obj s1 book)) new_status)) s1)))
      | None \<Rightarrow> (False, notify (Error (NotFound t)) s))"

definition rate_book :: "library \<Rightarrow> string \<Rightarrow> rat \<Rightarrow> bool \<times> library" where
  "rate_book s t r =
     (if \<not> (0 \<le> r \<and> r \<le> 5) then (False, notify (Error RatingRange) s)
      else
        (case get_book_by_title s t of
           Some book \<Rightarrow>
             (let s1 = assign book (\<lambda>b. b\<lparr>rating := (if r > 0 then Some r else None)\<rparr>) s
              in (True, save_library (notify (Success (Rated (title (obj s1 book)) r)) s1)))
         | None \<Rightarrow> (False, notify (Error (NotFound t)) s)))"

definition add_notes :: "library \<Rightarrow> string \<Rightarrow> string \<Rightarrow> bool \<times> library" where
  "add_notes s t new_notes =
     (case get_book_by_title s t of
        Some book \<Rightarrow>
          (let s1 = assign book (\<lambda>b. b\<lparr>notes' := new_notes\<rparr>) s
           in (True, save_library (notify (Success (NotesAdded (title (obj s1 book)))) s1)))
      | None \<Rightarrow> (False, notify (Error (NotFound t)) s))"

text \<open>
  \<^verbatim>\<open>search_books\<close>: the loop, with \<^verbatim>\<open>results\<close> as accumulator; the result lists
  references to the Books found.
\<close>

definition search_match :: "string \<Rightarrow> book \<Rightarrow> bool" where
  "search_match query b =
     (str_in query (lower (title b)) \<or> str_in query (lower (author b)) \<or>
      (genre b \<noteq> [] \<and> str_in query (lower (genre b))))"

fun search_loop :: "book list \<Rightarrow> string \<Rightarrow> ref list \<Rightarrow> ref list \<Rightarrow> ref list" where
  "search_loop h query [] results = results"
| "search_loop h query (book # rest) results =
     search_loop h query rest
       (if search_match query (h ! book) then results @ [book] else results)"

definition search_books :: "library \<Rightarrow> string \<Rightarrow> ref list" where
  "search_books s query = search_loop (heap s) (lower query) (books s) []"

text \<open>
  The values \<^verbatim>\<open>getattr\<close> finds on a Book object: \<^verbatim>\<open>None\<close>, a str, an int, a float, or
  some other object (a bound method, a dict, a class).
\<close>

datatype pyval = PyNone | PyStr string | PyInt int | PyFloat rat | PyOther

definition py_of_int :: "int option \<Rightarrow> pyval" where
  "py_of_int x = (case x of None \<Rightarrow> PyNone | Some n \<Rightarrow> PyInt n)"

definition py_of_float :: "rat option \<Rightarrow> pyval" where
  "py_of_float x = (case x of None \<Rightarrow> PyNone | Some r \<Rightarrow> PyFloat r)"

text \<open>
  Beside the eleven attributes set by \<^verbatim>\<open>__init__\<close>, a Book object answers
  \<^verbatim>\<open>hasattr\<close> for what its class and \<^verbatim>\<open>object\<close> define. Of those only \<^verbatim>\<open>__module__\<close> is a
  str: the name of the module defining the class, \<^verbatim>\<open>__main__\<close> for the script being run.
  \<^verbatim>\<open>__doc__\<close> (the class has no docstring) and \<^verbatim>\<open>__weakref__\<close> are \<^verbatim>\<open>None\<close>; the others
  are methods, the instance dict and the class, whatever the Python version adds to them.
\<close>

definition book_module :: string where
  "book_module = ''__main__''"

definition other_attrs :: "string list" where
  "other_attrs =
     [''to_dict'', ''from_dict'', ''__init__'', ''__str__'', ''__dict__'', ''__class__'',
      ''__delattr__'', ''__dir__'', ''__eq__'', ''__format__'', ''__ge__'',
      ''__getattribute__'', ''__getstate__'', ''__gt__'', ''__hash__'',
      ''__init_subclass__'', ''__le__'', ''__lt__'', ''__ne__'', ''__new__'',
      ''__reduce__'', ''__reduce_ex__'', ''__repr__'', ''__setattr__'', ''__sizeof__'',
      ''__subclasshook__'']"

text \<open>\<^verbatim>\<open>getattr(book, name)\<close>; \<open>None\<close> where \<^verbatim>\<open>hasattr(book, name)\<close> is false.\<close>

definition getattr :: "book \<Rightarrow> string \<Rightarrow> pyval option" where
  "getattr b name =
     (if name = ''title'' then Some (PyStr (title b))
      else if name = ''author'' then Some (PyStr (author b))
      else if name = ''isbn'' then Some (PyStr (isbn b))
      else if name = ''genre'' then Some (PyStr (genre b))
      else if name = ''publication_year'' then Some (py_of_int (publication_year b))
      else if name = ''publisher'' then Some (PyStr (publisher b))
      else if name = ''pages'' then Some (py_of_int (pages b))
      else if name = ''status'' then Some (PyStr (status b))
      else if name = ''date_added'' then Some (PyStr (date_added b))
      else if name = ''rating'' then Some (py_of_float (rating b))
      else if name = ''notes'' then Some (PyStr (notes' b))
      else if name = ''__module__'' then Some (PyStr book_module)
      else if name = ''__doc__'' \<or> name = ''__weakref__'' then Some PyNone
      else if name \<in> set other_attrs then Some PyOther
      else None)"

text \<open>
  \<^verbatim>\<open>list_books\<close>. \<^verbatim>\<open>not filter_by\<close> holds for \<^verbatim>\<open>None\<close> and for the empty string, and
  then the list \<^verbatim>\<open>self.books\<close> itself is returned. In the loop \<^verbatim>\<open>value.lower()\<close> is
  evaluated only after \<^verbatim>\<open>isinstance(book_value, str)\<close> held, and raises
  \<^verbatim>\<open>AttributeError\<close> when \<^verbatim>\<open>value\<close> is \<^verbatim>\<open>None\<close>.
\<close>

fun list_loop ::
  "book list \<Rightarrow> string \<Rightarrow> string option \<Rightarrow> ref list \<Rightarrow> ref list \<Rightarrow> exn + ref list" where
  "list_loop h filter_by val [] filtered_books = Inr filtered_books"
| "list_loop h filter_by val (book # rest) filtered_books =
     (case getattr (h ! book) filter_by of
        None \<Rightarrow> list_loop h filter_by val rest filtered_books
      | Some book_value \<Rightarrow>
          (case book_value of
             PyStr x \<Rightarrow>
               (case val of
                  None \<Rightarrow> Inl AttributeError
                | Some v \<Rightarrow>
                    list_loop h filter_by val rest
                      (if lower x = lower v then filtered_books @ [book] else filtered_books))
           | _ \<Rightarrow> list_loop h filter_by val rest filtered_books))"

definition list_books :: "library \<Rightarrow> string option \<Rightarrow> string option \<Rightarrow> exn + ref list" where
  "list_books s filter_by val =
     (case filter_by of
        None \<Rightarrow> Inr (books s)
      | Some f \<Rightarrow> if f = [] then Inr (books s) else list_loop (heap s) f val (books s) [])"

text \<open>
  \<^verbatim>\<open>get_statistics\<close>. A dict of counts is a map; \<^verbatim>\<open>d[k] = d.get(k, 0) + 1\<close> is
  \<open>tally\<close>. The three dicts are threaded through the loop, which reads the Books of
  the collection one after the other and assigns to none.
\<close>

definition tally :: "(string \<rightharpoonup> nat) \<Rightarrow> string \<Rightarrow> (string \<rightharpoonup> nat)" where
  "tally d k = d(k \<mapsto> (case d k of None \<Rightarrow> 0 | Some n \<Rightarrow> n) + 1)"

record statistics =
  total_books :: nat
  genres :: "string \<rightharpoonup> nat"
  statuses :: "string \<rightharpoonup> nat"
  authors :: "string \<rightharpoonup> nat"

fun stats_loop :: "book list \<Rightarrow> statistics \<Rightarrow> statistics" where
  "stats_loop [] acc = acc"
| "stats_loop (b # bs) acc =
     stats_loop bs
       (acc\<lparr>genres := (if genre b \<noteq> [] then tally (genres acc) (genre b) else genres acc),
            statuses := (if status b \<noteq> [] then tally (statuses acc) (status b) else statuses acc),
            authors := (if author b \<noteq> [] then tally (authors acc) (author b) else authors acc)\<rparr>)"

definition get_statistics :: "library \<Rightarrow> statistics" where
  "get_statistics s =
     stats_loop (collection s)
       \<lparr>total_books = length (books s),
        genres = Map.empty,
        statuses = [''Unread'' \<mapsto> 0, ''Reading'' \<mapsto> 0, ''Completed'' \<mapsto> 0],
        authors = Map.empty\<rparr>"

subsection \<open>Notions used by the properties\<close>

text \<open>The file holds the document of the collection as it is now.\<close>

definition persisted :: "library \<Rightarrow> bool" where
  "persisted s =
     (data_file s = Some (Document (JArr (map (\<lambda>b. JObj (to_dict b)) (collection s)))))"

text \<open>
  Every entry of \<^verbatim>\<open>self.books\<close> refers to an object that exists. The properties below
  hold in every state and do not assume it; \<open>valid\<close> is kept by every method.
\<close>

definition valid :: "library \<Rightarrow> bool" where
  "valid s = list_all (\<lambda>book. book < length (heap s)) (books s)"

text \<open>
  Removal as the specification words it: the first Book whose title matches
  case-insensitively goes, every other Book stays. It is compared with \<open>remove_book\<close>.
\<close>

fun spec_remove_first :: "book list \<Rightarrow> string \<Rightarrow> book list" where
  "spec_remove_first [] t = []"
| "spec_remove_first (b # bs) t =
     (if lower (title b) = lower t then bs else b # spec_remove_first bs t)"

text \<open>
  The position of the first Book whose title matches case-insensitively: where
  \<open>get_book_by_title\<close> is expected to stop.
\<close>

definition is_first_match :: "book list \<Rightarrow> string \<Rightarrow> nat \<Rightarrow> bool" where
  "is_first_match bs t i =
     (i < length bs \<and> lower (title (bs ! i)) = lower t \<and>
      (\<forall>j<i. lower (title (bs ! j)) \<noteq> lower t))"

text \<open>
  Containment as the specification words it: the lowered text holds the lowered query
  as a contiguous part. It is compared with the test \<^verbatim>\<open>query in ... .lower()\<close> of
  \<open>search_books\<close>.
\<close>

definition spec_contains_ci :: "string \<Rightarrow> string \<Rightarrow> bool" where
  "spec_contains_ci q x = (\<exists>p t. lower x = p @ lower q @ t)"

text \<open>The value of an attribute that exists and is a str.\<close>

definition str_attr :: "book \<Rightarrow> string \<Rightarrow> string option" where
  "str_attr b name = (case getattr b name of Some (PyStr x) \<Rightarrow> Some x | _ \<Rightarrow> None)"

text \<open>The invariant of the data model on \<open>status\<close>: one of the three defined values.\<close>

definition known_status :: "book \<Rightarrow> bool" where
  "known_status b = (status b = ''Unread'' \<or> status b = ''Reading'' \<or> status b = ''Completed'')"

subsection \<open>Sample states\<close>

definition dune_a :: book where
  "dune_a = Book ''2025-03-11'' ''Dune'' ''Frank Herbert'' [] ''Fiction'' None [] None
              ''Unread'' None None []"

definition dune_b :: book where
  "dune_b = Book ''2025-03-11'' ''dune'' ''Brian Herbert'' [] [] None [] None
              ''Reading'' None (Some 4) []"

definition emma :: book where
  "emma = Book ''2025-03-11'' ''Emma'' ''Jane Austen'' [] ''Fiction'' (Some 1815) [] None
            ''Completed'' None (Some 0) []"

definition emma_unrated :: book where
  "emma_unrated = emma\<lparr>rating := None\<rparr>"

text \<open>
  \<^verbatim>\<open>create_sample_books\<close> of the source, on the day given: the three Books it
  constructs, in order.
\<close>

definition create_sample_books :: "string \<Rightarrow> book list" where
  "create_sample_books today =
     [Book today ''To Kill a Mockingbird'' ''Harper Lee'' ''9780061120084'' ''Fiction''
        (Some 1960) ''HarperCollins'' (Some 281) ''Completed'' None (Some 5)
        ''Classic novel about racial injustice in the American South.'',
      Book today ''1984'' ''George Orwell'' ''9780451524935'' ''Dystopian''
        (Some 1949) ''Signet Classics'' (Some 328) ''Reading'' None (Some (9 / 2))
        ''Orwell's masterpiece about totalitarianism and surveillance.'',
      Book today ''The Great Gatsby'' ''F. Scott Fitzgerald'' ''9780743273565'' ''Fiction''
        (Some 1925) ''Scribner'' (Some 180) ''Unread'' None None
        ''A classic exploration of the American Dream in the Jazz Age.'']"

text \<open>
  Seven Book objects exist in each sample state: \<open>dune_a\<close>, \<open>emma\<close> (rated 0) and
  \<open>dune_b\<close> at the references 0, 1 and 2, the sample Books of the source at 3, 4 and 5,
  and \<open>emma_unrated\<close> at 6. \<open>empty_library\<close> is a store without Books and without
  file; \<open>shelf\<close> holds the first three objects; \<open>sample_library\<close> the three of the
  source; \<open>twice\<close> lists the one object at reference 0 two times.
\<close>

definition objects :: "book list" where
  "objects = [dune_a, emma, dune_b] @ create_sample_books ''2025-03-11'' @ [emma_unrated]"

definition empty_library :: library where
  "empty_library = \<lparr>heap = objects, books = [], data_file = None, notices = []\<rparr>"

definition shelf :: library where
  "shelf = \<lparr>heap = objects, books = [0, 1, 2], data_file = None, notices = []\<rparr>"

definition sample_library :: library where
  "sample_library = \<lparr>heap = objects, books = [3, 4, 5], data_file = None, notices = []\<rparr>"

definition twice :: library where
  "twice = \<lparr>heap = objects, books = [0, 0], data_file = None, notices = []\<rparr>"

text \<open>A store not yet constructed, in a state where the file holds the content given.\<close>

definition with_file :: "file_content \<Rightarrow> library" where
  "with_file c = \<lparr>heap = objects, books = [], data_file = Some c, notices = []\<rparr>"

section \<open>Properties\<close>

subsection \<open>Basic facts\<close>

lemma length_filter_less_iff: "(length (filter P xs) < length xs) = (\<exists>x\<in>set xs. \<not> P x)"
  by (induction xs) (auto simp: less_Suc_eq_le)

lemma filter_all_kept: "\<forall>x\<in>set xs. P x \<Longrightarrow> filter P xs = xs"
  by (induction xs) auto

lemma notify_fields:
  "heap (notify n s) = heap s"
  "books (notify n s) = books s"
  "data_file (notify n s) = data_file s"
  "obj (notify n s) = obj s"
  "collection (notify n s) = collection s"
  by (simp_all add: notify_def obj_def collection_def fun_eq_iff)

lemma save_library_fields:
  "heap (save_library s) = heap s"
  "books (save_library s) = books s"
  "obj (save_library s) = obj s"
  "collection (save_library s) = collection s"
  by (simp_all add: save_library_def notify_def obj_def collection_def fun_eq_iff)

lemma persisted_save_library: "persisted (save_library s)"
  by (simp add: persisted_def save_library_def notify_def collection_def obj_def)

lemma collection_books_update:
  "collection (s\<lparr>books := rs\<rparr>) = map (obj s) rs"
  by (simp add: collection_def obj_def)

lemma obj_books_update: "obj (s\<lparr>books := rs\<rparr>) = obj s"
  by (simp add: obj_def fun_eq_iff)

lemma filter_collection:
  "filter P (collection s) = map (obj s) (filter (\<lambda>book. P (obj s book)) (books s))"
  by (simp add: collection_def filter_map comp_def)

lemma set_collection: "(\<exists>b\<in>set (collection s). P b) = (\<exists>book\<in>set (books s). P (obj s book))"
  by (auto simp: collection_def)

subsection \<open>remove_book\<close>

text \<open>
  C1, as the code has it: \<open>remove_book\<close> removes every Book whose title matches the
  given one case-insensitively and keeps the others in their order; no Book object
  changes. It returns \<open>True\<close> exactly when some title matched, and then the file holds
  the new collection; when no title matches it returns \<open>False\<close> and neither the
  collection nor the file changes.
\<close>

theorem remove_book_all_matches:
  "books (snd (remove_book s t)) =
     filter (\<lambda>book. lower (title (obj s book)) \<noteq> lower t) (books s) \<and>
   heap (snd (remove_book s t)) = heap s \<and>
   collection (snd (remove_book s t)) =
     filter (\<lambda>b. lower (title b) \<noteq> lower t) (collection s) \<and>
   fst (remove_book s t) = (\<exists>b\<in>set (collection s). lower (title b) = lower t) \<and>
   (fst (remove_book s t) \<longrightarrow> persisted (snd (remove_book s t))) \<and>
   (\<not> fst (remove_book s t) \<longrightarrow>
      books (snd (remove_book s t)) = books s \<and>
      data_file (snd (remove_book s t)) = data_file s)"
proof (cases "\<exists>book\<in>set (books s). lower (title (obj s book)) = lower t")
  case True
  then have "length (filter (\<lambda>book. lower (title (obj s book)) \<noteq> lower t) (books s))
      < length (books s)"
    by (simp add: length_filter_less_iff)
  then have "remove_book s t =
      (True, save_library (notify (Success (Removed t))
         (s\<lparr>books := filter (\<lambda>book. lower (title (obj s book)) \<noteq> lower t) (books s)\<rparr>)))"
    by (simp add: remove_book_def Let_def)
  with True show ?thesis
    by (simp add: save_library_fields notify_fields persisted_save_library
        collection_books_update filter_collection set_collection)
next
  case False
  then have keep: "filter (\<lambda>book. lower (title (obj s book)) \<noteq> lower t) (books s) = books s"
    by (intro filter_all_kept) simp
  then have "remove_book s t = (False, notify (Error (NotFound t)) s)"
    by (simp add: remove_book_def Let_def)
  with False keep show ?thesis
    by (simp add: notify_fields filter_collection set_collection collection_def)
qed

text \<open>
  On the sample shelf: removing \<^verbatim>\<open>DUNE\<close> succeeds, persists and leaves one Book;
  removing \<^verbatim>\<open>Dunes\<close> fails and changes nothing.
\<close>

theorem remove_book_all_matches_witness:
  "fst (remove_book shelf ''DUNE'') \<and> persisted (snd (remove_book shelf ''DUNE'')) \<and>
   books (snd (remove_book shelf ''DUNE'')) = [1] \<and>
   collection (snd (remove_book shelf ''DUNE'')) = [emma] \<and>
   \<not> fst (remove_book shelf ''Dunes'') \<and>
   books (snd (remove_book shelf ''Dunes'')) = [0, 1, 2] \<and>
   data_file (snd (remove_book shelf ''Dunes'')) = None"
proof -
  have hit: "\<exists>b\<in>set (collection shelf). lower (title b) = lower ''DUNE''"
    by code_simp
  have miss: "\<not> (\<exists>b\<in>set (collection shelf). lower (title b) = lower ''Dunes'')"
    by code_simp
  have kept: "filter (\<lambda>book. lower (title (obj shelf book)) \<noteq> lower ''DUNE'') (books shelf) = [1]"
    "filter (\<lambda>b. lower (title b) \<noteq> lower ''DUNE'') (collection shelf) = [emma]"
    by code_simp+
  have sh: "books shelf = [0, 1, 2]" "data_file shelf = None"
    by (simp_all add: shelf_def)
  from remove_book_all_matches [of shelf "''DUNE''"] hit kept
  have a: "fst (remove_book shelf ''DUNE'') \<and> persisted (snd (remove_book shelf ''DUNE'')) \<and>
     books (snd (remove_book shelf ''DUNE'')) = [1] \<and>
     collection (snd (remove_book shelf ''DUNE'')) = [emma]"
    by simp
  from remove_book_all_matches [of shelf "''Dunes''"] miss
  have "\<not> fst (remove_book shelf ''Dunes'') \<and>
     books (snd (remove_book shelf ''Dunes'')) = books shelf \<and>
     data_file (snd (remove_book shelf ''Dunes'')) = data_file shelf"
    by blast
  with sh have b: "\<not> fst (remove_book shelf ''Dunes'') \<and>
     books (snd (remove_book shelf ''Dunes'')) = [0, 1, 2] \<and>
     data_file (snd (remove_book shelf ''Dunes'')) = None"
    by simp
  from a b show ?thesis by simp
qed

text \<open>
  C1 as stated fails where two titles match: the sample shelf holds \<^verbatim>\<open>Dune\<close> and
  \<^verbatim>\<open>dune\<close>; removing the first match only would leave the second one, and
  \<open>remove_book\<close> removes both.
\<close>

theorem remove_book_first_match_counterexample:
  "collection shelf = [dune_a, emma, dune_b] \<and>
   spec_remove_first (collection shelf) ''DUNE'' = [emma, dune_b] \<and>
   collection (snd (remove_book shelf ''DUNE'')) = [emma] \<and>
   collection (snd (remove_book shelf ''DUNE'')) \<noteq> spec_remove_first (collection shelf) ''DUNE''"
  by code_simp

subsection \<open>save_library and load_library\<close>

lemma keys_to_dict: "map fst (to_dict b) = param_names"
  by (simp add: to_dict_def param_names_def)

lemma list_all_member_self: "list_all (\<lambda>k. k \<in> set xs) xs"
  by (simp add: list_all_iff)

lemma annotated_to_dict: "list_all annotated (to_dict b)"
  by (simp add: to_dict_def annotated_def json_of_int_def json_of_float_def
      split: option.split)

lemma args_to_dict:
  "str_arg (to_dict b) ''title'' d1 = title b"
  "str_arg (to_dict b) ''author'' d2 = author b"
  "str_arg (to_dict b) ''isbn'' d3 = isbn b"
  "str_arg (to_dict b) ''genre'' d4 = genre b"
  "int_arg (to_dict b) ''publication_year'' = publication_year b"
  "str_arg (to_dict b) ''publisher'' d5 = publisher b"
  "int_arg (to_dict b) ''pages'' = pages b"
  "str_arg (to_dict b) ''status'' d6 = status b"
  "opt_str_arg (to_dict b) ''date_added'' = Some (date_added b)"
  "float_arg (to_dict b) ''rating'' = rating b"
  "str_arg (to_dict b) ''notes'' d7 = notes' b"
  by (simp_all add: to_dict_def str_arg_def int_arg_def opt_str_arg_def float_arg_def
      json_of_int_def json_of_float_def split: option.split)

lemma required_to_dict:
  "map_of (to_dict b) ''title'' \<noteq> None" "map_of (to_dict b) ''author'' \<noteq> None"
  by (simp_all add: to_dict_def)

lemma from_dict_to_dict:
  assumes "date_added b \<noteq> []"
  shows "from_dict today (JObj (to_dict b)) = Inr b"
  using assms
  by (simp add: from_dict_def keys_to_dict list_all_member_self annotated_to_dict
      args_to_dict required_to_dict Book_def)

lemma from_dicts_to_dict:
  "\<forall>b\<in>set bs. date_added b \<noteq> [] \<Longrightarrow>
   from_dicts today (map (\<lambda>b. JObj (to_dict b)) bs) = Inr bs"
  by (induction bs) (simp_all add: from_dict_to_dict)

lemma date_added_Book: "today \<noteq> [] \<Longrightarrow> date_added (Book today t a i g y p n s d r m) \<noteq> []"
  by (simp add: Book_def split: option.split)

lemma date_added_from_dict:
  "today \<noteq> [] \<Longrightarrow> from_dict today j = Inr b \<Longrightarrow> date_added b \<noteq> []"
  by (auto simp: from_dict_def date_added_Book split: json.splits if_splits)

text \<open>The objects put on the heap by a load are the Books of the new collection.\<close>

lemma nth_new_objects: "map ((!) (h @ bs)) [length h ..< length h + length bs] = bs"
  by (rule nth_equalityI) (simp_all add: nth_append)


lemma load_saved:
  assumes "\<forall>b\<in>set bs. date_added b \<noteq> []"
    and "data_file s = Some (Document (JArr (map (\<lambda>b. JObj (to_dict b)) bs)))"
  shows "LibraryManager today s =
     Inr (notify (Success (Loaded (length bs)))
           (s\<lparr>heap := heap s @ bs, books := [length (heap s) ..< length (heap s) + length bs]\<rparr>))"
  using assms by (simp add: LibraryManager_def load_library_def from_dicts_to_dict)

lemma collection_loaded:
  "collection (notify n (s\<lparr>heap := heap s @ bs,
      books := [length (heap s) ..< length (heap s) + length bs]\<rparr>)) = bs"
proof -
  have "obj (s\<lparr>heap := heap s @ bs, books := rs\<rparr>) = (!) (heap s @ bs)" for rs
    by (simp add: obj_def fun_eq_iff)
  then show ?thesis
    by (simp add: notify_fields collection_def nth_new_objects)
qed



subsection \<open>Finding a Book by title\<close>

lemma is_first_match_0: "is_first_match (b # bs) t 0 = (lower (title b) = lower t)"
  by (simp add: is_first_match_def)

lemma is_first_match_Suc:
  "is_first_match (b # bs) t (Suc i) = (lower (title b) \<noteq> lower t \<and> is_first_match bs t i)"
  by (auto simp: is_first_match_def less_Suc_eq_0_disj)

lemma find_book_None:
  "(find_book h rs t = None) = (\<forall>book\<in>set rs. lower (title (h ! book)) \<noteq> lower t)"
  by (induction rs) auto

lemma find_book_first:
  "is_first_match (map ((!) h) rs) t i \<Longrightarrow> find_book h rs t = Some (rs ! i)"
proof (induction rs arbitrary: i)
  case Nil
  then show ?case by (simp add: is_first_match_def)
next
  case (Cons book rest)
  show ?case
  proof (cases i)
    case 0
    with Cons.prems show ?thesis by (simp add: is_first_match_0)
  next
    case (Suc n)
    with Cons.prems have "lower (title (h ! book)) \<noteq> lower t"
      "is_first_match (map ((!) h) rest) t n"
      by (simp_all add: is_first_match_Suc)
    with Cons.IH [of n] Suc show ?thesis by simp
  qed
qed

lemma first_match_exists:
  "\<exists>b\<in>set bs. lower (title b) = lower t \<Longrightarrow> \<exists>i. is_first_match bs t i"
proof (induction bs)
  case Nil
  then show ?case by simp
next
  case (Cons b bs)
  show ?case
  proof (cases "lower (title b) = lower t")
    case True
    then have "is_first_match (b # bs) t 0" by (simp add: is_first_match_0)
    then show ?thesis ..
  next
    case False
    with Cons obtain i where "is_first_match bs t i" by auto
    with False have "is_first_match (b # bs) t (Suc i)" by (simp add: is_first_match_Suc)
    then show ?thesis ..
  qed
qed

text \<open>\<open>get_book_by_title\<close> returns the first match, and \<open>None\<close> when there is none.\<close>

lemma get_book_by_title_first:
  "is_first_match (collection s) t i \<Longrightarrow> get_book_by_title s t = Some (books s ! i)"
proof -
  have "collection s = map ((!) (heap s)) (books s)"
    by (simp add: collection_def obj_def fun_eq_iff cong: map_cong)
  then show "is_first_match (collection s) t i \<Longrightarrow> get_book_by_title s t = Some (books s ! i)"
    by (simp add: get_book_by_title_def find_book_first)
qed

lemma get_book_by_title_None:
  "(get_book_by_title s t = None) = (\<forall>b\<in>set (collection s). lower (title b) \<noteq> lower t)"
  by (simp add: get_book_by_title_def find_book_None collection_def obj_def)

subsection \<open>Assignment to an attribute\<close>

lemma assign_fields:
  "heap (assign book f s) = (heap s)[book := f (obj s book)]"
  "books (assign book f s) = books s"
  "data_file (assign book f s) = data_file s"
  by (simp_all add: assign_def)

lemma rating_update_same: "rating b = x \<Longrightarrow> b\<lparr>rating := x\<rparr> = b"
  by (cases b) simp

lemma found_results:
  assumes "is_first_match (collection s) t i"
  shows "update_book_status s t v =
      (True, save_library (notify (Success (StatusUpdated
         (title (obj (assign (books s ! i) (\<lambda>b. b\<lparr>status := v\<rparr>) s) (books s ! i))) v))
         (assign (books s ! i) (\<lambda>b. b\<lparr>status := v\<rparr>) s)))"
    and "add_notes s t n =
      (True, save_library (notify (Success (NotesAdded
         (title (obj (assign (books s ! i) (\<lambda>b. b\<lparr>notes' := n\<rparr>) s) (books s ! i)))))
         (assign (books s ! i) (\<lambda>b. b\<lparr>notes' := n\<rparr>) s)))"
    and "0 \<le> r \<and> r \<le> 5 \<Longrightarrow> rate_book s t r =
      (True, save_library (notify (Success (Rated
         (title (obj (assign (books s ! i) (\<lambda>b. b\<lparr>rating := (if r > 0 then Some r else None)\<rparr>) s)
            (books s ! i))) r))
         (assign (books s ! i) (\<lambda>b. b\<lparr>rating := (if r > 0 then Some r else None)\<rparr>) s)))"
  using get_book_by_title_first [OF assms]
  by (simp_all add: update_book_status_def add_notes_def rate_book_def Let_def
      split del: if_split)

lemma not_found_results:
  assumes "\<forall>b\<in>set (collection s). lower (title b) \<noteq> lower t"
  shows "update_book_status s t v = (False, notify (Error (NotFound t)) s)"
    and "add_notes s t n = (False, notify (Error (NotFound t)) s)"
    and "0 \<le> r \<and> r \<le> 5 \<Longrightarrow> rate_book s t r = (False, notify (Error (NotFound t)) s)"
  using assms get_book_by_title_None [of s t]
  by (simp_all add: update_book_status_def add_notes_def rate_book_def)

lemma rate_book_out_of_range:
  "\<not> (0 \<le> r \<and> r \<le> 5) \<Longrightarrow> rate_book s t r = (False, notify (Error RatingRange) s)"
  by (simp add: rate_book_def)

lemma rate_book_never_found:
  assumes "\<forall>b\<in>set (collection s). lower (title b) \<noteq> lower t"
  shows "\<not> fst (rate_book s t r) \<and> heap (snd (rate_book s t r)) = heap s \<and>
     books (snd (rate_book s t r)) = books s \<and>
     data_file (snd (rate_book s t r)) = data_file s"
proof (cases "0 \<le> r \<and> r \<le> 5")
  case True
  with assms show ?thesis
    by (simp add: not_found_results notify_fields)
next
  case False
  then show ?thesis
    by (simp add: rate_book_out_of_range notify_fields)
qed

lemma after_assign:
  "persisted (save_library (notify n (assign book f s)))"
  "books (save_library (notify n (assign book f s))) = books s"
  "heap (save_library (notify n (assign book f s))) = (heap s)[book := f (obj s book)]"
  by (simp_all add: persisted_save_library save_library_fields notify_fields assign_fields)

subsection \<open>rate_book\<close>

text \<open>
  C3, as the code has it. For a rating below 0 or above 5 \<open>rate_book\<close> returns \<open>False\<close>
  and the state is the one before with the notice of the range error added: that is so
  whatever the title and the collection, found or not, so the title is not looked up,
  no Book changes and nothing is written. For a rating from 0 to 5 and a title that is
  found it returns \<open>True\<close> and persists. A rating of exactly 0 given to \<open>rate_book\<close>
  is stored as no rating, and rating an unrated Book 0 leaves every Book, and the
  collection, as they were. \<open>add_book\<close> does not look at the rating: it appends the
  reference to the Book it is given, changes no Book, and persists the collection, the
  Book's rating as it is.
\<close>

theorem rate_book_rating_rules:
  "(\<not> (0 \<le> r \<and> r \<le> 5) \<longrightarrow>
      rate_book s t r = (False, notify (Error RatingRange) s) \<and>
      heap (snd (rate_book s t r)) = heap s \<and> books (snd (rate_book s t r)) = books s \<and>
      data_file (snd (rate_book s t r)) = data_file s) \<and>
   (0 \<le> r \<and> r \<le> 5 \<and> (\<exists>b\<in>set (collection s). lower (title b) = lower t) \<longrightarrow>
      fst (rate_book s t r) \<and> persisted (snd (rate_book s t r))) \<and>
   (is_first_match (collection s) t i \<longrightarrow>
      books (snd (rate_book s t 0)) = books s \<and>
      heap (snd (rate_book s t 0)) =
        (heap s)[books s ! i := (obj s (books s ! i))\<lparr>rating := None\<rparr>]) \<and>
   (is_first_match (collection s) t i \<and> rating (obj s (books s ! i)) = None \<longrightarrow>
      heap (snd (rate_book s t 0)) = heap s \<and>
      collection (snd (rate_book s t 0)) = collection s) \<and>
   books (add_book s book) = books s @ [book] \<and> heap (add_book s book) = heap s \<and>
   collection (add_book s book) = collection s @ [obj s book] \<and>
   persisted (add_book s book)"
proof -
  have a: "\<not> (0 \<le> r \<and> r \<le> 5) \<longrightarrow>
      rate_book s t r = (False, notify (Error RatingRange) s) \<and>
      heap (snd (rate_book s t r)) = heap s \<and> books (snd (rate_book s t r)) = books s \<and>
      data_file (snd (rate_book s t r)) = data_file s"
    by (simp add: rate_book_out_of_range notify_fields)
  have b: "0 \<le> r \<and> r \<le> 5 \<and> (\<exists>b\<in>set (collection s). lower (title b) = lower t) \<longrightarrow>
      fst (rate_book s t r) \<and> persisted (snd (rate_book s t r))"
  proof
    assume h: "0 \<le> r \<and> r \<le> 5 \<and> (\<exists>b\<in>set (collection s). lower (title b) = lower t)"
    then obtain k where k: "is_first_match (collection s) t k"
      using first_match_exists by blast
    from h found_results(3) [OF k, of r]
    show "fst (rate_book s t r) \<and> persisted (snd (rate_book s t r))"
      by (simp add: after_assign split del: if_split)
  qed
  have c: "is_first_match (collection s) t i \<longrightarrow>
      books (snd (rate_book s t 0)) = books s \<and>
      heap (snd (rate_book s t 0)) =
        (heap s)[books s ! i := (obj s (books s ! i))\<lparr>rating := None\<rparr>]"
  proof
    assume k: "is_first_match (collection s) t i"
    from found_results(3) [OF k, of 0]
    show "books (snd (rate_book s t 0)) = books s \<and>
      heap (snd (rate_book s t 0)) =
        (heap s)[books s ! i := (obj s (books s ! i))\<lparr>rating := None\<rparr>]"
      by (simp add: after_assign)
  qed
  have d: "is_first_match (collection s) t i \<and> rating (obj s (books s ! i)) = None \<longrightarrow>
      heap (snd (rate_book s t 0)) = heap s \<and>
      collection (snd (rate_book s t 0)) = collection s"
  proof
    assume h: "is_first_match (collection s) t i \<and> rating (obj s (books s ! i)) = None"
    then have "(obj s (books s ! i))\<lparr>rating := None\<rparr> = heap s ! (books s ! i)"
      by (simp add: rating_update_same obj_def)
    then have "(heap s)[books s ! i := (obj s (books s ! i))\<lparr>rating := None\<rparr>] = heap s"
      by simp
    with h c have e: "heap (snd (rate_book s t 0)) = heap s"
      "books (snd (rate_book s t 0)) = books s"
      by simp_all
    then show "heap (snd (rate_book s t 0)) = heap s \<and>
      collection (snd (rate_book s t 0)) = collection s"
      by (simp add: collection_def obj_def)
  qed
  have e: "books (add_book s book) = books s @ [book] \<and> heap (add_book s book) = heap s \<and>
      collection (add_book s book) = collection s @ [obj s book] \<and>
      persisted (add_book s book)"
    by (simp add: add_book_def save_library_fields notify_fields persisted_save_library
        collection_books_update) (simp add: collection_def)
  from a b c d e show ?thesis by blast
qed

text \<open>
  On the sample shelf: a rating of 6, and a rating of -1 for a title that is not there,
  end in the same range error; a rating of 4.5 is stored and persisted; a rating of 0
  unrates \<^verbatim>\<open>Emma\<close> and leaves the unrated \<^verbatim>\<open>Dune\<close> as it is; \<open>add_book\<close> of the Book
  at reference 1 stores it as it is.
\<close>

theorem rate_book_rating_rules_witness:
  "rate_book shelf ''Emma'' 6 = (False, notify (Error RatingRange) shelf) \<and>
   rate_book shelf ''Ulysses'' (- 1) = (False, notify (Error RatingRange) shelf) \<and>
   fst (rate_book shelf ''EMMA'' (9 / 2)) \<and> persisted (snd (rate_book shelf ''EMMA'' (9 / 2))) \<and>
   heap (snd (rate_book shelf ''emma'' 0)) ! 1 = emma_unrated \<and>
   heap (snd (rate_book shelf ''DUNE'' 0)) = heap shelf \<and>
   collection (add_book empty_library 1) = [emma]"
proof -
  have r6: "\<not> ((0::rat) \<le> 6 \<and> (6::rat) \<le> 5)" "\<not> ((0::rat) \<le> - 1 \<and> (- 1::rat) \<le> 5)"
    by simp_all
  have r45: "(0::rat) \<le> 9 / 2 \<and> (9 / 2 :: rat) \<le> 5 \<and>
      (\<exists>b\<in>set (collection shelf). lower (title b) = lower ''EMMA'')"
    by code_simp
  have m1: "is_first_match (collection shelf) ''emma'' 1"
    by code_simp
  have m0: "is_first_match (collection shelf) ''DUNE'' 0 \<and> rating (obj shelf (books shelf ! 0)) = None"
    by code_simp
  have u: "(heap shelf)[books shelf ! 1 := (obj shelf (books shelf ! 1))\<lparr>rating := None\<rparr>] ! 1
      = emma_unrated"
    by code_simp
  have e: "collection empty_library @ [obj empty_library 1] = [emma]"
    by code_simp
  from rate_book_rating_rules [of 6 shelf "''Emma''" 0 1] r6
  have a: "rate_book shelf ''Emma'' 6 = (False, notify (Error RatingRange) shelf)"
    by blast
  from rate_book_rating_rules [of "- 1" shelf "''Ulysses''" 0 1] r6
  have a': "rate_book shelf ''Ulysses'' (- 1) = (False, notify (Error RatingRange) shelf)"
    by blast
  from rate_book_rating_rules [of "9 / 2" shelf "''EMMA''" 0 1] r45
  have b: "fst (rate_book shelf ''EMMA'' (9 / 2)) \<and> persisted (snd (rate_book shelf ''EMMA'' (9 / 2)))"
    by blast
  from rate_book_rating_rules [of 0 shelf "''emma''" 1 1] m1
  have "heap (snd (rate_book shelf ''emma'' 0)) =
      (heap shelf)[books shelf ! 1 := (obj shelf (books shelf ! 1))\<lparr>rating := None\<rparr>]"
    by blast
  with u have c: "heap (snd (rate_book shelf ''emma'' 0)) ! 1 = emma_unrated"
    by simp
  from rate_book_rating_rules [of 0 shelf "''DUNE''" 0 1] m0
  have d: "heap (snd (rate_book shelf ''DUNE'' 0)) = heap shelf"
    by blast
  from rate_book_rating_rules [of 0 empty_library "''DUNE''" 0 1] e
  have f: "collection (add_book empty_library 1) = [emma]"
    by simp
  from a a' b c d f show ?thesis by blast
qed

text \<open>
  C3 as stated fails for \<open>add_book\<close>: the Book at reference 1 carries the rating 0
  and is stored and persisted with the rating 0, which differs, in the collection and
  in the file, from the same Book never rated (reference 6).
\<close>

theorem add_book_rating_zero_counterexample:
  "obj empty_library 1 = emma \<and> rating emma = Some 0 \<and>
   obj empty_library 6 = emma_unrated \<and> rating emma_unrated = None \<and>
   map rating (collection (add_book empty_library 1)) = [Some 0] \<and>
   collection (add_book empty_library 1) \<noteq> collection (add_book empty_library 6) \<and>
   data_file (add_book empty_library 1) \<noteq> data_file (add_book empty_library 6)"
  by code_simp

subsection \<open>update_book_status, rate_book and add_notes\<close>

text \<open>
  C8, as the code has it: when no Book matches the title case-insensitively,
  \<open>update_book_status\<close>, \<open>rate_book\<close> and \<open>add_notes\<close> return \<open>False\<close> and leave every
  Book object, the list of the collection and the file as they are. When \<open>i\<close> is the
  position of the first match, \<open>update_book_status\<close> and \<open>add_notes\<close> return \<open>True\<close>
  and persist; the list of the collection is the same, and the heap is the old one
  with the one field of the object listed at \<open>i\<close> replaced, so the other fields of that
  Book, the other Book objects and the order are untouched. \<open>rate_book\<close> does the same
  for a rating from 0 to 5, storing a rating of 0 as no rating; for a rating outside
  that range it returns \<open>False\<close> and changes nothing, match or no match.
\<close>

theorem update_by_title_frame:
  "((\<forall>b\<in>set (collection s). lower (title b) \<noteq> lower t) \<longrightarrow>
      \<not> fst (update_book_status s t v) \<and> heap (snd (update_book_status s t v)) = heap s \<and>
      books (snd (update_book_status s t v)) = books s \<and>
      data_file (snd (update_book_status s t v)) = data_file s \<and>
      \<not> fst (rate_book s t r) \<and> heap (snd (rate_book s t r)) = heap s \<and>
      books (snd (rate_book s t r)) = books s \<and>
      data_file (snd (rate_book s t r)) = data_file s \<and>
      \<not> fst (add_notes s t n) \<and> heap (snd (add_notes s t n)) = heap s \<and>
      books (snd (add_notes s t n)) = books s \<and>
      data_file (snd (add_notes s t n)) = data_file s) \<and>
   (is_first_match (collection s) t i \<longrightarrow>
      fst (update_book_status s t v) \<and> persisted (snd (update_book_status s t v)) \<and>
      books (snd (update_book_status s t v)) = books s \<and>
      heap (snd (update_book_status s t v)) =
        (heap s)[books s ! i := (obj s (books s ! i))\<lparr>status := v\<rparr>] \<and>
      fst (add_notes s t n) \<and> persisted (snd (add_notes s t n)) \<and>
      books (snd (add_notes s t n)) = books s \<and>
      heap (snd (add_notes s t n)) =
        (heap s)[books s ! i := (obj s (books s ! i))\<lparr>notes' := n\<rparr>]) \<and>
   (is_first_match (collection s) t i \<and> 0 \<le> r \<and> r \<le> 5 \<longrightarrow>
      fst (rate_book s t r) \<and> persisted (snd (rate_book s t r)) \<and>
      books (snd (rate_book s t r)) = books s \<and>
      heap (snd (rate_book s t r)) =
        (heap s)[books s ! i := (obj s (books s ! i))\<lparr>rating := (if 0 < r then Some r else None)\<rparr>]) \<and>
   (\<not> (0 \<le> r \<and> r \<le> 5) \<longrightarrow>
      \<not> fst (rate_book s t r) \<and> heap (snd (rate_book s t r)) = heap s \<and>
      books (snd (rate_book s t r)) = books s \<and>
      data_file (snd (rate_book s t r)) = data_file s)"
proof -
  have a: "(\<forall>b\<in>set (collection s). lower (title b) \<noteq> lower t) \<longrightarrow>
      \<not> fst (update_book_status s t v) \<and> heap (snd (update_book_status s t v)) = heap s \<and>
      books (snd (update_book_status s t v)) = books s \<and>
      data_file (snd (update_book_status s t v)) = data_file s \<and>
      \<not> fst (rate_book s t r) \<and> heap (snd (rate_book s t r)) = heap s \<and>
      books (snd (rate_book s t r)) = books s \<and>
      data_file (snd (rate_book s t r)) = data_file s \<and>
      \<not> fst (add_notes s t n) \<and> heap (snd (add_notes s t n)) = heap s \<and>
      books (snd (add_notes s t n)) = books s \<and>
      data_file (snd (add_notes s t n)) = data_file s"
    by (simp add: not_found_results rate_book_never_found notify_fields)
  have b: "is_first_match (collection s) t i \<longrightarrow>
      fst (update_book_status s t v) \<and> persisted (snd (update_book_status s t v)) \<and>
      books (snd (update_book_status s t v)) = books s \<and>
      heap (snd (update_book_status s t v)) =
        (heap s)[books s ! i := (obj s (books s ! i))\<lparr>status := v\<rparr>] \<and>
      fst (add_notes s t n) \<and> persisted (snd (add_notes s t n)) \<and>
      books (snd (add_notes s t n)) = books s \<and>
      heap (snd (add_notes s t n)) =
        (heap s)[books s ! i := (obj s (books s ! i))\<lparr>notes' := n\<rparr>]"
    by (simp add: found_results after_assign)
  have c: "is_first_match (collection s) t i \<and> 0 \<le> r \<and> r \<le> 5 \<longrightarrow>
      fst (rate_book s t r) \<and> persisted (snd (rate_book s t r)) \<and>
      books (snd (rate_book s t r)) = books s \<and>
      heap (snd (rate_book s t r)) =
        (heap s)[books s ! i := (obj s (books s ! i))\<lparr>rating := (if 0 < r then Some r else None)\<rparr>]"
  proof
    assume h: "is_first_match (collection s) t i \<and> 0 \<le> r \<and> r \<le> 5"
    then have k: "is_first_match (collection s) t i" and rg: "0 \<le> r \<and> r \<le> 5"
      by simp_all
    from found_results(3) [OF k rg]
    show "fst (rate_book s t r) \<and> persisted (snd (rate_book s t r)) \<and>
      books (snd (rate_book s t r)) = books s \<and>
      heap (snd (rate_book s t r)) =
        (heap s)[books s ! i := (obj s (books s ! i))\<lparr>rating := (if 0 < r then Some r else None)\<rparr>]"
      by (simp add: after_assign split del: if_split)
  qed
  have d: "\<not> (0 \<le> r \<and> r \<le> 5) \<longrightarrow>
      \<not> fst (rate_book s t r) \<and> heap (snd (rate_book s t r)) = heap s \<and>
      books (snd (rate_book s t r)) = books s \<and>
      data_file (snd (rate_book s t r)) = data_file s"
    by (simp add: rate_book_out_of_range notify_fields)
  from a b c d show ?thesis by blast
qed

text \<open>
  On the sample shelf, for a title that is absent and for one that occurs twice; and on
  the store that lists one Book object twice, where the new status shows at both
  places.
\<close>

theorem update_by_title_frame_witness:
  "\<not> fst (update_book_status shelf ''Ulysses'' ''Reading'') \<and>
   heap (snd (rate_book shelf ''Ulysses'' 3)) = heap shelf \<and>
   data_file (snd (add_notes shelf ''Ulysses'' ''long'')) = data_file shelf \<and>
   fst (update_book_status shelf ''DUNE'' ''Completed'') \<and>
   collection (snd (update_book_status shelf ''DUNE'' ''Completed'')) =
     [dune_a\<lparr>status := ''Completed''\<rparr>, emma, dune_b] \<and>
   collection (snd (add_notes shelf ''DUNE'' ''long'')) =
     [dune_a\<lparr>notes' := ''long''\<rparr>, emma, dune_b] \<and>
   persisted (snd (rate_book shelf ''DUNE'' 3)) \<and>
   collection (snd (rate_book shelf ''DUNE'' 3)) = [dune_a\<lparr>rating := Some 3\<rparr>, emma, dune_b] \<and>
   map status (collection twice) = [''Unread'', ''Unread''] \<and>
   map status (collection (snd (update_book_status twice ''Dune'' ''Reading''))) =
     [''Reading'', ''Reading''] \<and>
   \<not> fst (rate_book shelf ''DUNE'' 7) \<and> heap (snd (rate_book shelf ''DUNE'' 7)) = heap shelf"
proof -
  have miss: "\<forall>b\<in>set (collection shelf). lower (title b) \<noteq> lower ''Ulysses''"
    by code_simp
  have hit: "is_first_match (collection shelf) ''DUNE'' 0"
    by code_simp
  have r3: "is_first_match (collection shelf) ''DUNE'' 0 \<and> (0::rat) \<le> 3 \<and> (3::rat) \<le> 5"
    using hit by simp
  have hit2: "is_first_match (collection twice) ''Dune'' 0"
    by code_simp
  have v: "map ((!) ((heap shelf)[books shelf ! 0 := (obj shelf (books shelf ! 0))\<lparr>status := ''Completed''\<rparr>]))
        (books shelf) = [dune_a\<lparr>status := ''Completed''\<rparr>, emma, dune_b]"
    "map ((!) ((heap shelf)[books shelf ! 0 := (obj shelf (books shelf ! 0))\<lparr>notes' := ''long''\<rparr>]))
        (books shelf) = [dune_a\<lparr>notes' := ''long''\<rparr>, emma, dune_b]"
    "map ((!) ((heap shelf)[books shelf ! 0 :=
          (obj shelf (books shelf ! 0))\<lparr>rating := (if (0::rat) < 3 then Some 3 else None)\<rparr>]))
        (books shelf) = [dune_a\<lparr>rating := Some 3\<rparr>, emma, dune_b]"
    "map status (map ((!) ((heap twice)[books twice ! 0 :=
          (obj twice (books twice ! 0))\<lparr>status := ''Reading''\<rparr>])) (books twice))
        = [''Reading'', ''Reading'']"
    "map status (collection twice) = [''Unread'', ''Unread'']"
    by code_simp+
  have col: "collection x = map ((!) (heap x)) (books x)" for x
    by (simp add: collection_def obj_def fun_eq_iff cong: map_cong)
  from update_by_title_frame [of shelf "''Ulysses''" "''Reading''" 3 "''long''" 0] miss
  have a: "\<not> fst (update_book_status shelf ''Ulysses'' ''Reading'') \<and>
     heap (snd (rate_book shelf ''Ulysses'' 3)) = heap shelf \<and>
     data_file (snd (add_notes shelf ''Ulysses'' ''long'')) = data_file shelf"
    by blast
  from update_by_title_frame [of shelf "''DUNE''" "''Completed''" 3 "''long''" 0] hit
  have b: "fst (update_book_status shelf ''DUNE'' ''Completed'') \<and>
     books (snd (update_book_status shelf ''DUNE'' ''Completed'')) = books shelf \<and>
     heap (snd (update_book_status shelf ''DUNE'' ''Completed'')) =
       (heap shelf)[books shelf ! 0 := (obj shelf (books shelf ! 0))\<lparr>status := ''Completed''\<rparr>] \<and>
     books (snd (add_notes shelf ''DUNE'' ''long'')) = books shelf \<and>
     heap (snd (add_notes shelf ''DUNE'' ''long'')) =
       (heap shelf)[books shelf ! 0 := (obj shelf (books shelf ! 0))\<lparr>notes' := ''long''\<rparr>]"
    by blast
  from update_by_title_frame [of shelf "''DUNE''" "''Completed''" 3 "''long''" 0] r3
  have c: "persisted (snd (rate_book shelf ''DUNE'' 3)) \<and>
     books (snd (rate_book shelf ''DUNE'' 3)) = books shelf \<and>
     heap (snd (rate_book shelf ''DUNE'' 3)) =
       (heap shelf)[books shelf ! 0 :=
          (obj shelf (books shelf ! 0))\<lparr>rating := (if (0::rat) < 3 then Some 3 else None)\<rparr>]"
    by blast
  from update_by_title_frame [of twice "''Dune''" "''Reading''" 3 "''long''" 0] hit2
  have d: "books (snd (update_book_status twice ''Dune'' ''Reading'')) = books twice \<and>
     heap (snd (update_book_status twice ''Dune'' ''Reading'')) =
       (heap twice)[books twice ! 0 := (obj twice (books twice ! 0))\<lparr>status := ''Reading''\<rparr>]"
    by blast
  from b v(1,2) have b': "fst (update_book_status shelf ''DUNE'' ''Completed'') \<and>
     collection (snd (update_book_status shelf ''DUNE'' ''Completed'')) =
       [dune_a\<lparr>status := ''Completed''\<rparr>, emma, dune_b] \<and>
     collection (snd (add_notes shelf ''DUNE'' ''long'')) =
       [dune_a\<lparr>notes' := ''long''\<rparr>, emma, dune_b]"
    by (simp add: col)
  from c v(3) have c': "persisted (snd (rate_book shelf ''DUNE'' 3)) \<and>
     collection (snd (rate_book shelf ''DUNE'' 3)) = [dune_a\<lparr>rating := Some 3\<rparr>, emma, dune_b]"
    by (simp add: col)
  from d v(4) have d': "map status (collection (snd (update_book_status twice ''Dune'' ''Reading''))) =
     [''Reading'', ''Reading'']"
    by (simp add: col)
  have r7: "\<not> ((0::rat) \<le> 7 \<and> (7::rat) \<le> 5)"
    by simp
  from update_by_title_frame [of shelf "''DUNE''" "''Completed''" 7 "''long''" 0] r7
  have e: "\<not> fst (rate_book shelf ''DUNE'' 7) \<and> heap (snd (rate_book shelf ''DUNE'' 7)) = heap shelf"
    by blast
  from a b' c' d' e v(5) show ?thesis by blast
qed

text \<open>
  C8 as stated fails for \<open>rate_book\<close>: the title \<^verbatim>\<open>Emma\<close> matches a Book, and still a
  rating of 7 returns \<open>False\<close>, changes nothing and writes nothing.
\<close>

theorem rate_book_match_rejected_counterexample:
  "is_first_match (collection shelf) ''Emma'' 1 \<and>
   \<not> fst (rate_book shelf ''Emma'' 7) \<and>
   heap (snd (rate_book shelf ''Emma'' 7)) = heap shelf \<and>
   books (snd (rate_book shelf ''Emma'' 7)) = books shelf \<and>
   \<not> persisted (snd (rate_book shelf ''Emma'' 7))"
  by code_simp

subsection \<open>Loading at construction\<close>

text \<open>
  What is not caught leaves the constructor: the exception of reading bytes that are no
  text, of nesting too deep, and the \<^verbatim>\<open>TypeError\<close> of iterating a value that is no
  list or of \<^verbatim>\<open>cls(**data)\<close> on a record that lacks a required key or has a foreign one.
\<close>

lemma load_other_failures:
  "data_file s = Some Bad_encoding \<Longrightarrow> LibraryManager today s = Inl UnicodeDecodeError"
  "data_file s = Some Too_deep \<Longrightarrow> LibraryManager today s = Inl RecursionError"
  "data_file s = Some (Document JNull) \<Longrightarrow> LibraryManager today s = Inl TypeError"
  "data_file s = Some (Document (JArr [JObj [(''title'', JStr x)]])) \<Longrightarrow>
     LibraryManager today s = Inl TypeError"
  "data_file s = Some (Document (JArr [JObj [(''name'', JStr x)]])) \<Longrightarrow>
     LibraryManager today s = Inl TypeError"
  by (simp_all add: LibraryManager_def load_library_def from_dict_def param_names_def)

lemma load_no_document:
  "data_file s = Some Bad_json \<Longrightarrow>
     LibraryManager today s = Inr (notify (Error DecodeFailed) (s\<lparr>books := []\<rparr>))"
  "data_file s = None \<Longrightarrow>
     LibraryManager today s = Inr (notify (Info NoFile) (s\<lparr>books := []\<rparr>))"
  by (simp_all add: LibraryManager_def load_library_def)

lemma first_book_added:
  assumes "books s = []"
  shows "collection (add_book s book) = [obj s book] \<and> persisted (add_book s book)"
  using assms
  by (simp add: add_book_def save_library_fields notify_fields collection_books_update
      persisted_save_library)

lemma first_book_reloaded:
  assumes "books s = []" and "date_added (obj s book) \<noteq> []"
  shows "\<exists>s''. LibraryManager today (add_book s book) = Inr s'' \<and> collection s'' = [obj s book]"
proof -
  let ?a = "add_book s book"
  let ?s'' = "notify (Success (Loaded (length [obj s book])))
     (?a\<lparr>heap := heap ?a @ [obj s book],
         books := [length (heap ?a) ..< length (heap ?a) + length [obj s book]]\<rparr>)"
  from first_book_added [OF assms(1), of book]
  have f: "data_file ?a = Some (Document (JArr (map (\<lambda>b. JObj (to_dict b)) [obj s book])))"
    by (simp add: persisted_def)
  from assms(2) have d: "\<forall>b\<in>set [obj s book]. date_added b \<noteq> []"
    by simp
  from load_saved [OF d f]
  have l: "LibraryManager today ?a = Inr ?s''" .
  have c: "collection ?s'' = [obj s book]"
    by (rule collection_loaded)
  from l c show ?thesis by blast
qed

text \<open>
  C4, as the code has it: on a file whose content fails to decode as JSON, the
  constructor returns a store with an empty collection and the error notice of the
  failed load; on a missing file it returns a store with an empty collection and a plain
  information notice. No Book object and no file changes. Either store is usable:
  adding a Book to it gives the collection of that Book, written to the file, and a
  store constructed later on that file holds the Book.
\<close>

theorem load_bad_json_or_missing:
  "(data_file s = Some Bad_json \<longrightarrow>
      LibraryManager today s = Inr (notify (Error DecodeFailed) (s\<lparr>books := []\<rparr>))) \<and>
   (data_file s = None \<longrightarrow>
      LibraryManager today s = Inr (notify (Info NoFile) (s\<lparr>books := []\<rparr>))) \<and>
   (data_file s = Some Bad_json \<or> data_file s = None \<longrightarrow>
      (\<exists>s'. LibraryManager today s = Inr s' \<and> books s' = [] \<and> collection s' = [] \<and>
         heap s' = heap s \<and> data_file s' = data_file s \<and>
         collection (add_book s' book) = [obj s book] \<and> persisted (add_book s' book) \<and>
         (date_added (obj s book) \<noteq> [] \<longrightarrow>
            (\<exists>s''. LibraryManager later (add_book s' book) = Inr s'' \<and>
               collection s'' = [obj s book]))))"
proof -
  have u: "books s' = [] \<and> heap s' = heap s \<Longrightarrow>
      collection s' = [] \<and>
      collection (add_book s' book) = [obj s book] \<and> persisted (add_book s' book) \<and>
      (date_added (obj s book) \<noteq> [] \<longrightarrow>
         (\<exists>s''. LibraryManager later (add_book s' book) = Inr s'' \<and>
            collection s'' = [obj s book]))" for s'
  proof -
    assume h: "books s' = [] \<and> heap s' = heap s"
    then have o: "obj s' book = obj s book"
      by (simp add: obj_def)
    from h have e: "books s' = []" by simp
    from first_book_added [OF e, of book] first_book_reloaded [OF e, of book later] o e
    show ?thesis
      by (simp add: collection_def)
  qed
  have a: "data_file s = Some Bad_json \<longrightarrow>
      LibraryManager today s = Inr (notify (Error DecodeFailed) (s\<lparr>books := []\<rparr>))"
    by (simp add: load_no_document)
  have b: "data_file s = None \<longrightarrow>
      LibraryManager today s = Inr (notify (Info NoFile) (s\<lparr>books := []\<rparr>))"
    by (simp add: load_no_document)
  have c: "data_file s = Some Bad_json \<or> data_file s = None \<longrightarrow>
      (\<exists>s'. LibraryManager today s = Inr s' \<and> books s' = [] \<and> collection s' = [] \<and>
         heap s' = heap s \<and> data_file s' = data_file s \<and>
         collection (add_book s' book) = [obj s book] \<and> persisted (add_book s' book) \<and>
         (date_added (obj s book) \<noteq> [] \<longrightarrow>
            (\<exists>s''. LibraryManager later (add_book s' book) = Inr s'' \<and>
               collection s'' = [obj s book])))"
  proof
    assume "data_file s = Some Bad_json \<or> data_file s = None"
    then obtain n where l: "LibraryManager today s = Inr (notify n (s\<lparr>books := []\<rparr>))"
      using a b by blast
    let ?s' = "notify n (s\<lparr>books := []\<rparr>)"
    have f: "books ?s' = [] \<and> heap ?s' = heap s"
      by (simp add: notify_fields)
    have g: "data_file ?s' = data_file s"
      by (simp add: notify_fields)
    from l f g u [OF f] show "\<exists>s'. LibraryManager today s = Inr s' \<and> books s' = [] \<and>
         collection s' = [] \<and> heap s' = heap s \<and> data_file s' = data_file s \<and>
         collection (add_book s' book) = [obj s book] \<and> persisted (add_book s' book) \<and>
         (date_added (obj s book) \<noteq> [] \<longrightarrow>
            (\<exists>s''. LibraryManager later (add_book s' book) = Inr s'' \<and>
               collection s'' = [obj s book]))"
      by blast
  qed
  from a b c show ?thesis by blast
qed

text \<open>On a file that does not decode and on no file, adding the Book at reference 1.\<close>

theorem load_bad_json_or_missing_witness:
  "LibraryManager ''2026-11-03'' (with_file Bad_json) =
     Inr (notify (Error DecodeFailed) (with_file Bad_json)) \<and>
   LibraryManager ''2026-11-03'' empty_library = Inr (notify (Info NoFile) empty_library) \<and>
   (\<exists>s'. LibraryManager ''2026-11-03'' (with_file Bad_json) = Inr s' \<and> collection s' = [] \<and>
      collection (add_book s' 1) = [emma] \<and> persisted (add_book s' 1) \<and>
      (\<exists>s''. LibraryManager ''2026-11-04'' (add_book s' 1) = Inr s'' \<and> collection s'' = [emma]))"
proof -
  have f: "data_file (with_file Bad_json) = Some Bad_json" "data_file empty_library = None"
    by (simp_all add: with_file_def empty_library_def)
  have e: "(with_file Bad_json)\<lparr>books := []\<rparr> = with_file Bad_json"
    "empty_library\<lparr>books := []\<rparr> = empty_library"
    by (simp_all add: with_file_def empty_library_def)
  have o: "obj (with_file Bad_json) 1 = emma \<and> date_added (obj (with_file Bad_json) 1) \<noteq> []"
    by code_simp
  note t = load_bad_json_or_missing [of "with_file Bad_json" "''2026-11-03''" 1 "''2026-11-04''"]
  from t f(1) e(1)
  have a: "LibraryManager ''2026-11-03'' (with_file Bad_json) =
     Inr (notify (Error DecodeFailed) (with_file Bad_json))"
    by simp
  from load_bad_json_or_missing [of empty_library "''2026-11-03''" 1 "''2026-11-04''"] f(2) e(2)
  have b: "LibraryManager ''2026-11-03'' empty_library = Inr (notify (Info NoFile) empty_library)"
    by simp
  from t f(1) o
  have c: "\<exists>s'. LibraryManager ''2026-11-03'' (with_file Bad_json) = Inr s' \<and> collection s' = [] \<and>
      collection (add_book s' 1) = [emma] \<and> persisted (add_book s' 1) \<and>
      (\<exists>s''. LibraryManager ''2026-11-04'' (add_book s' 1) = Inr s'' \<and> collection s'' = [emma])"
    by auto
  from a b c show ?thesis by blast
qed

text \<open>
  C4 as stated fails for content that is malformed in another way than the one caught:
  on bytes that are no text, on a record without author, and on a document that is a
  dict, the constructor raises and there is no store.
\<close>

theorem load_malformed_raises_counterexample:
  "LibraryManager ''2026-11-03'' (with_file Bad_encoding) = Inl UnicodeDecodeError \<and>
   LibraryManager ''2026-11-03'' (with_file (Document (JArr [JObj [(''title'', JStr ''Dune'')]])))
     = Inl TypeError \<and>
   LibraryManager ''2026-11-03'' (with_file (Document (JObj [(''books'', JArr [])])))
     = Inl TypeError"
  by code_simp

subsection \<open>search_books\<close>

lemma startswith_iff: "startswith s q = (\<exists>t. s = q @ t)"
  by (induction s q rule: startswith.induct) auto

lemma str_in_iff: "str_in q s = (\<exists>p t. s = p @ q @ t)"
proof (induction s)
  case Nil
  then show ?case by auto
next
  case (Cons d s)
  show ?case
  proof
    assume "str_in q (d # s)"
    then consider "startswith (d # s) q" | "str_in q s" by auto
    then show "\<exists>p t. d # s = p @ q @ t"
    proof cases
      case 1
      then obtain t where "d # s = q @ t" by (auto simp: startswith_iff)
      then have "d # s = [] @ q @ t" by simp
      then show ?thesis by blast
    next
      case 2
      with Cons obtain p t where "s = p @ q @ t" by auto
      then have "d # s = (d # p) @ q @ t" by simp
      then show ?thesis by blast
    qed
  next
    assume "\<exists>p t. d # s = p @ q @ t"
    then obtain p t where e: "d # s = p @ q @ t" by auto
    show "str_in q (d # s)"
    proof (cases p)
      case Nil
      with e have "startswith (d # s) q" by (auto simp: startswith_iff)
      then show ?thesis by simp
    next
      case (Cons c p')
      with e have "s = p' @ q @ t" by simp
      with Cons.IH have "str_in q s" by auto
      then show ?thesis by simp
    qed
  qed
qed

lemma str_in_lower: "str_in (lower q) (lower x) = spec_contains_ci q x"
  by (simp add: str_in_iff spec_contains_ci_def)

lemma search_loop_filter:
  "search_loop h q rs acc = acc @ filter (\<lambda>book. search_match q (h ! book)) rs"
  by (induction rs arbitrary: acc) simp_all

lemma lower_Nil: "lower [] = []"
  by (simp add: lower_def)

lemma str_in_Nil: "str_in [] s"
  by (induction s) simp_all

text \<open>
  C5: \<open>search_books\<close> returns, in the order of the collection, exactly the Books whose
  title or author or, when the genre is non-empty, genre contains the query as a
  case-insensitive substring: as references, and so as Books. The empty query returns
  the whole collection; a query contained in no title, author or genre returns the
  empty list. The function has no exceptional result and takes part in no state
  change: it reads the collection only.
\<close>

theorem search_books_spec:
  "search_books s q =
     filter (\<lambda>book. spec_contains_ci q (title (obj s book)) \<or>
                    spec_contains_ci q (author (obj s book)) \<or>
                    (genre (obj s book) \<noteq> [] \<and> spec_contains_ci q (genre (obj s book))))
       (books s) \<and>
   map (obj s) (search_books s q) =
     filter (\<lambda>b. spec_contains_ci q (title b) \<or> spec_contains_ci q (author b) \<or>
                 (genre b \<noteq> [] \<and> spec_contains_ci q (genre b))) (collection s) \<and>
   search_books s [] = books s \<and>
   ((\<forall>b\<in>set (collection s). \<not> spec_contains_ci q (title b) \<and> \<not> spec_contains_ci q (author b) \<and>
        \<not> spec_contains_ci q (genre b)) \<longrightarrow> search_books s q = [])"
proof -
  have m: "search_match (lower q) = (\<lambda>b. spec_contains_ci q (title b) \<or>
      spec_contains_ci q (author b) \<or> (genre b \<noteq> [] \<and> spec_contains_ci q (genre b)))" for q
    by (rule ext) (simp add: search_match_def str_in_lower)
  have a: "search_books s q =
     filter (\<lambda>book. spec_contains_ci q (title (obj s book)) \<or>
                    spec_contains_ci q (author (obj s book)) \<or>
                    (genre (obj s book) \<noteq> [] \<and> spec_contains_ci q (genre (obj s book))))
       (books s)" for q
    by (simp add: search_books_def search_loop_filter m obj_def)
  have v: "map (obj s) (search_books s q) =
     filter (\<lambda>b. spec_contains_ci q (title b) \<or> spec_contains_ci q (author b) \<or>
                 (genre b \<noteq> [] \<and> spec_contains_ci q (genre b))) (collection s)"
    by (simp add: a filter_collection)
  have "search_match (lower []) b" for b
    by (simp add: search_match_def lower_Nil str_in_Nil)
  then have b: "search_books s [] = books s"
    by (simp add: search_books_def search_loop_filter)
  have c: "(\<forall>b\<in>set (collection s). \<not> spec_contains_ci q (title b) \<and> \<not> spec_contains_ci q (author b) \<and>
        \<not> spec_contains_ci q (genre b)) \<longrightarrow> search_books s q = []"
    by (simp add: a filter_empty_conv collection_def)
  from a v b c show ?thesis by blast
qed

text \<open>Four queries on the sample shelf.\<close>

theorem search_books_spec_witness:
  "search_books shelf ''HERB'' = [0, 2] \<and>
   map (obj shelf) (search_books shelf ''HERB'') = [dune_a, dune_b] \<and>
   map (obj shelf) (search_books shelf ''fiction'') = [dune_a, emma] \<and>
   search_books shelf [] = [0, 1, 2] \<and>
   search_books shelf ''tolstoy'' = []"
proof -
  have sh: "books shelf = [0, 1, 2]"
    by (simp add: shelf_def)
  have n: "\<forall>b\<in>set (collection shelf). \<not> str_in (lower ''tolstoy'') (lower (title b)) \<and>
      \<not> str_in (lower ''tolstoy'') (lower (author b)) \<and>
      \<not> str_in (lower ''tolstoy'') (lower (genre b))"
    by code_simp
  have h: "filter (\<lambda>book. str_in (lower ''HERB'') (lower (title (obj shelf book))) \<or>
        str_in (lower ''HERB'') (lower (author (obj shelf book))) \<or>
        (genre (obj shelf book) \<noteq> [] \<and> str_in (lower ''HERB'') (lower (genre (obj shelf book)))))
        (books shelf) = [0, 2]"
    "map (obj shelf) [0, 2] = [dune_a, dune_b]"
    by code_simp+
  have f: "filter (\<lambda>b. str_in (lower ''fiction'') (lower (title b)) \<or>
        str_in (lower ''fiction'') (lower (author b)) \<or>
        (genre b \<noteq> [] \<and> str_in (lower ''fiction'') (lower (genre b)))) (collection shelf)
        = [dune_a, emma]"
    by code_simp
  from search_books_spec [of shelf "''HERB''"] h(1)
  have a: "search_books shelf ''HERB'' = [0, 2]"
    by (simp add: str_in_lower)
  with h(2) have a': "map (obj shelf) (search_books shelf ''HERB'') = [dune_a, dune_b]"
    by simp
  from search_books_spec [of shelf "''fiction''"]
  have "map (obj shelf) (search_books shelf ''fiction'') =
      filter (\<lambda>b. spec_contains_ci ''fiction'' (title b) \<or> spec_contains_ci ''fiction'' (author b) \<or>
                 (genre b \<noteq> [] \<and> spec_contains_ci ''fiction'' (genre b))) (collection shelf)"
    by blast
  with f have b: "map (obj shelf) (search_books shelf ''fiction'') = [dune_a, emma]"
    by (simp add: str_in_lower)
  from search_books_spec [of shelf "''tolstoy''"] sh
  have c: "search_books shelf [] = [0, 1, 2]"
    by simp
  from n have n': "\<forall>b\<in>set (collection shelf). \<not> spec_contains_ci ''tolstoy'' (title b) \<and>
      \<not> spec_contains_ci ''tolstoy'' (author b) \<and> \<not> spec_contains_ci ''tolstoy'' (genre b)"
    by (simp only: str_in_lower)
  from search_books_spec [of shelf "''tolstoy''"] n'
  have d: "search_books shelf ''tolstoy'' = []"
    by blast
  from a a' b c d show ?thesis by blast
qed

subsection \<open>list_books\<close>

lemma str_attr_fields:
  "str_attr b ''title'' = Some (title b)"
  "str_attr b ''author'' = Some (author b)"
  "str_attr b ''isbn'' = Some (isbn b)"
  "str_attr b ''genre'' = Some (genre b)"
  "str_attr b ''publisher'' = Some (publisher b)"
  "str_attr b ''status'' = Some (status b)"
  "str_attr b ''date_added'' = Some (date_added b)"
  "str_attr b ''notes'' = Some (notes' b)"
  by (simp_all add: str_attr_def getattr_def)

lemma str_attr_numbers:
  "str_attr b ''publication_year'' = None"
  "str_attr b ''pages'' = None"
  "str_attr b ''rating'' = None"
  by (simp_all add: str_attr_def getattr_def py_of_int_def py_of_float_def split: option.split)

lemma str_attr_module: "str_attr b ''__module__'' = Some ''__main__''"
  by (simp add: str_attr_def getattr_def book_module_def)

lemma list_loop_value:
  "list_loop h f (Some v) rs acc =
     Inr (acc @ filter (\<lambda>book. \<exists>x. str_attr (h ! book) f = Some x \<and> lower x = lower v) rs)"
  by (induction rs arbitrary: acc)
    (auto simp: str_attr_def split: option.splits pyval.splits)

lemma list_loop_no_str:
  "\<forall>book\<in>set rs. str_attr (h ! book) f = None \<Longrightarrow> list_loop h f val rs acc = Inr acc"
  by (induction rs arbitrary: acc)
    (auto simp: str_attr_def split: option.splits pyval.splits)

lemma list_loop_no_value:
  "\<exists>book\<in>set rs. str_attr (h ! book) f \<noteq> None \<Longrightarrow> list_loop h f None rs acc = Inl AttributeError"
  by (induction rs arbitrary: acc)
    (auto simp: str_attr_def split: option.splits pyval.splits)

text \<open>
  C6: without a filter (none given, or the empty name) \<open>list_books\<close> returns the
  collection in its order. With a filter field and a value it returns, in order,
  exactly the Books that have a str under that name equal to the value
  case-insensitively: for \<^verbatim>\<open>genre\<close> those whose genre equals the value, and likewise for
  the other str attributes (\<open>str_attr_fields\<close>). When no Book has a str under the filter
  field, because \<^verbatim>\<open>hasattr\<close> fails or the value is no str as for \<^verbatim>\<open>pages\<close>
  (\<open>str_attr_numbers\<close>), the result is the empty list, and no exception.
\<close>

theorem list_books_spec:
  "list_books s None val = Inr (books s) \<and>
   list_books s (Some []) val = Inr (books s) \<and>
   (f \<noteq> [] \<longrightarrow>
      list_books s (Some f) (Some v) =
        Inr (filter (\<lambda>book. \<exists>x. str_attr (obj s book) f = Some x \<and> lower x = lower v) (books s))) \<and>
   list_books s (Some ''genre'') (Some v) =
     Inr (filter (\<lambda>book. lower (genre (obj s book)) = lower v) (books s)) \<and>
   (f \<noteq> [] \<and> (\<forall>b\<in>set (collection s). str_attr b f = None) \<longrightarrow>
      list_books s (Some f) val = Inr []) \<and>
   list_books s (Some ''pages'') val = Inr []"
proof -
  have a: "list_books s None val = Inr (books s) \<and> list_books s (Some []) val = Inr (books s)"
    by (simp add: list_books_def)
  have b: "f \<noteq> [] \<longrightarrow>
      list_books s (Some f) (Some v) =
        Inr (filter (\<lambda>book. \<exists>x. str_attr (obj s book) f = Some x \<and> lower x = lower v) (books s))" for f
    by (simp add: list_books_def list_loop_value obj_def)
  from b [of "''genre''"]
  have c: "list_books s (Some ''genre'') (Some v) =
     Inr (filter (\<lambda>book. lower (genre (obj s book)) = lower v) (books s))"
    by (simp add: str_attr_fields)
  have d: "f \<noteq> [] \<and> (\<forall>b\<in>set (collection s). str_attr b f = None) \<longrightarrow>
      list_books s (Some f) val = Inr []" for f
    by (simp add: list_books_def list_loop_no_str collection_def obj_def)
  from d [of "''pages''"]
  have e: "list_books s (Some ''pages'') val = Inr []"
    by (simp add: str_attr_numbers)
  from a b c d e show ?thesis by blast
qed

text \<open>On the sample shelf: no filter, two str attributes, an unknown name, and \<^verbatim>\<open>pages\<close>.\<close>

theorem list_books_spec_witness:
  "list_books shelf None None = Inr [0, 1, 2] \<and>
   list_books shelf (Some ''author'') (Some ''JANE AUSTEN'') = Inr [1] \<and>
   list_books shelf (Some ''genre'') (Some ''fiction'') = Inr [0, 1] \<and>
   list_books shelf (Some ''shelf_mark'') (Some ''A1'') = Inr [] \<and>
   list_books shelf (Some ''pages'') (Some ''281'') = Inr []"
proof -
  have sh: "books shelf = [0, 1, 2]"
    by (simp add: shelf_def)
  have au: "filter (\<lambda>book. lower (author (obj shelf book)) = lower ''JANE AUSTEN'') (books shelf) = [1]"
    by code_simp
  have ge: "filter (\<lambda>book. lower (genre (obj shelf book)) = lower ''fiction'') (books shelf) = [0, 1]"
    by code_simp
  have un: "''shelf_mark'' \<noteq> [] \<and> (\<forall>b\<in>set (collection shelf). str_attr b ''shelf_mark'' = None)"
    by code_simp
  note t = list_books_spec [of shelf "Some ''A1''" "''shelf_mark''" "''fiction''"]
  from list_books_spec [of shelf None "''author''" "''JANE AUSTEN''"] sh
  have a: "list_books shelf None None = Inr [0, 1, 2]"
    by simp
  from list_books_spec [of shelf None "''author''" "''JANE AUSTEN''"] au
  have a': "list_books shelf (Some ''author'') (Some ''JANE AUSTEN'') = Inr [1]"
    by (simp add: str_attr_fields)
  from t ge have b: "list_books shelf (Some ''genre'') (Some ''fiction'') = Inr [0, 1]"
    by simp
  from t un have c: "list_books shelf (Some ''shelf_mark'') (Some ''A1'') = Inr []"
    by blast
  from list_books_spec [of shelf "Some ''281''" "''pages''" "''281''"]
  have d: "list_books shelf (Some ''pages'') (Some ''281'') = Inr []"
    by blast
  from a a' b c d show ?thesis by blast
qed

text \<open>
  C10: with a filter field and no value, \<open>list_books\<close> raises \<^verbatim>\<open>AttributeError\<close> as soon
  as one Book of the collection has a str under the filter field. With a str value it
  always returns a list, whatever the filter field; so it does without any filter.
\<close>

theorem list_books_value_required:
  "(f \<noteq> [] \<and> (\<exists>b\<in>set (collection s). str_attr b f \<noteq> None) \<longrightarrow>
      list_books s (Some f) None = Inl AttributeError) \<and>
   (\<exists>bs. list_books s filter_by (Some v) = Inr bs) \<and>
   (\<exists>bs. list_books s None val = Inr bs)"
proof -
  have a: "f \<noteq> [] \<and> (\<exists>b\<in>set (collection s). str_attr b f \<noteq> None) \<longrightarrow>
      list_books s (Some f) None = Inl AttributeError"
    by (simp add: list_books_def list_loop_no_value collection_def obj_def)
  have b: "\<exists>bs. list_books s filter_by (Some v) = Inr bs"
    by (cases filter_by) (simp_all add: list_books_def list_loop_value)
  have c: "\<exists>bs. list_books s None val = Inr bs"
    by (simp add: list_books_def)
  from a b c show ?thesis by blast
qed

text \<open>On the sample shelf, for \<^verbatim>\<open>genre\<close> and for the class attribute \<^verbatim>\<open>__module__\<close>.\<close>

theorem list_books_value_required_witness:
  "list_books shelf (Some ''genre'') None = Inl AttributeError \<and>
   list_books shelf (Some ''__module__'') None = Inl AttributeError \<and>
   list_books shelf (Some ''genre'') (Some ''FICTION'') = Inr [0, 1]"
proof -
  have g: "''genre'' \<noteq> [] \<and> (\<exists>b\<in>set (collection shelf). str_attr b ''genre'' \<noteq> None)"
    by code_simp
  have m: "''__module__'' \<noteq> [] \<and> (\<exists>b\<in>set (collection shelf). str_attr b ''__module__'' \<noteq> None)"
    by code_simp
  have v: "list_books shelf (Some ''genre'') (Some ''FICTION'') = Inr [0, 1]"
    by code_simp
  from list_books_value_required [of "''genre''" shelf "Some ''genre''" "''FICTION''" None] g
  have a: "list_books shelf (Some ''genre'') None = Inl AttributeError"
    by blast
  from list_books_value_required [of "''__module__''" shelf "Some ''genre''" "''FICTION''" None] m
  have b: "list_books shelf (Some ''__module__'') None = Inl AttributeError"
    by blast
  from a b v show ?thesis by blast
qed

subsection \<open>get_statistics\<close>

lemma total_books_stats_loop: "total_books (stats_loop bs acc) = total_books acc"
  by (induction bs arbitrary: acc) simp_all

lemma genres_stats_loop:
  "genres (stats_loop bs acc) g =
     (if g \<noteq> [] \<and> (\<exists>b\<in>set bs. genre b = g)
      then Some ((case genres acc g of None \<Rightarrow> 0 | Some n \<Rightarrow> n) + length (filter (\<lambda>b. genre b = g) bs))
      else genres acc g)"
  by (induction bs arbitrary: acc) (auto simp: tally_def)

lemma authors_stats_loop:
  "authors (stats_loop bs acc) a =
     (if a \<noteq> [] \<and> (\<exists>b\<in>set bs. author b = a)
      then Some ((case authors acc a of None \<Rightarrow> 0 | Some n \<Rightarrow> n) + length (filter (\<lambda>b. author b = a) bs))
      else authors acc a)"
  by (induction bs arbitrary: acc) (auto simp: tally_def)

lemma statuses_stats_loop:
  "statuses (stats_loop bs acc) k =
     (if k \<noteq> [] \<and> (\<exists>b\<in>set bs. status b = k)
      then Some ((case statuses acc k of None \<Rightarrow> 0 | Some n \<Rightarrow> n) + length (filter (\<lambda>b. status b = k) bs))
      else statuses acc k)"
  by (induction bs arbitrary: acc) (auto simp: tally_def)

lemma length_filter_none: "\<forall>x\<in>set xs. \<not> P x \<Longrightarrow> length (filter P xs) = 0"
  by (induction xs) auto

lemma status_counts_sum:
  "\<forall>b\<in>set bs. known_status b \<Longrightarrow>
   length (filter (\<lambda>b. status b = ''Unread'') bs) +
   length (filter (\<lambda>b. status b = ''Reading'') bs) +
   length (filter (\<lambda>b. status b = ''Completed'') bs) = length bs"
  by (induction bs) (auto simp: known_status_def)

lemma length_collection: "length (collection s) = length (books s)"
  by (simp add: collection_def)

lemma statuses_get_statistics:
  assumes "\<forall>b\<in>set (collection s). known_status b"
  shows "statuses (get_statistics s) k =
     (if k = ''Unread'' \<or> k = ''Reading'' \<or> k = ''Completed''
      then Some (length (filter (\<lambda>b. status b = k) (collection s))) else None)"
proof (cases "\<exists>b\<in>set (collection s). status b = k")
  case True
  with assms have "k = ''Unread'' \<or> k = ''Reading'' \<or> k = ''Completed''"
    by (auto simp: known_status_def)
  with True show ?thesis
    by (auto simp: get_statistics_def statuses_stats_loop)
next
  case False
  then have "length (filter (\<lambda>b. status b = k) (collection s)) = 0"
    by (intro length_filter_none) simp
  with False show ?thesis
    by (auto simp: get_statistics_def statuses_stats_loop)
qed

text \<open>
  C7: on a collection whose Books have one of the three defined statuses,
  \<open>get_statistics\<close> returns the size of the collection as \<open>total_books\<close>; \<open>genres\<close> and
  \<open>authors\<close> map each non-empty genre and author that occurs to the number of Books
  having it, and nothing else; \<open>statuses\<close> has exactly the keys \<^verbatim>\<open>Unread\<close>, \<^verbatim>\<open>Reading\<close> and
  \<^verbatim>\<open>Completed\<close>, each mapped to the number of Books with that status, and the three
  numbers add up to \<open>total_books\<close>. The function reads the collection only.
\<close>

theorem get_statistics_spec:
  assumes "\<forall>b\<in>set (collection s). known_status b"
  shows "total_books (get_statistics s) = length (books s) \<and>
    (\<forall>g. genres (get_statistics s) g =
       (if g \<noteq> [] \<and> g \<in> genre ` set (collection s)
        then Some (length (filter (\<lambda>b. genre b = g) (collection s))) else None)) \<and>
    (\<forall>a. authors (get_statistics s) a =
       (if a \<noteq> [] \<and> a \<in> author ` set (collection s)
        then Some (length (filter (\<lambda>b. author b = a) (collection s))) else None)) \<and>
    (\<forall>k. statuses (get_statistics s) k =
       (if k = ''Unread'' \<or> k = ''Reading'' \<or> k = ''Completed''
        then Some (length (filter (\<lambda>b. status b = k) (collection s))) else None)) \<and>
    (\<exists>u r c. statuses (get_statistics s) ''Unread'' = Some u \<and>
       statuses (get_statistics s) ''Reading'' = Some r \<and>
       statuses (get_statistics s) ''Completed'' = Some c \<and>
       u + r + c = total_books (get_statistics s))"
proof -
  have t: "total_books (get_statistics s) = length (books s)"
    by (simp add: get_statistics_def total_books_stats_loop)
  have g: "\<forall>g. genres (get_statistics s) g =
       (if g \<noteq> [] \<and> g \<in> genre ` set (collection s)
        then Some (length (filter (\<lambda>b. genre b = g) (collection s))) else None)"
    by (auto simp: get_statistics_def genres_stats_loop)
  have a: "\<forall>a. authors (get_statistics s) a =
       (if a \<noteq> [] \<and> a \<in> author ` set (collection s)
        then Some (length (filter (\<lambda>b. author b = a) (collection s))) else None)"
    by (auto simp: get_statistics_def authors_stats_loop)
  have k: "\<forall>k. statuses (get_statistics s) k =
       (if k = ''Unread'' \<or> k = ''Reading'' \<or> k = ''Completed''
        then Some (length (filter (\<lambda>b. status b = k) (collection s))) else None)"
    using assms by (simp add: statuses_get_statistics)
  have "\<exists>u r c. statuses (get_statistics s) ''Unread'' = Some u \<and>
       statuses (get_statistics s) ''Reading'' = Some r \<and>
       statuses (get_statistics s) ''Completed'' = Some c \<and>
       u + r + c = total_books (get_statistics s)"
    using assms status_counts_sum [of "collection s"]
    by (simp add: statuses_get_statistics t length_collection)
  with t g a k show ?thesis by blast
qed

text \<open>The three sample Books of the source: two of genre Fiction, one Dystopian.\<close>

theorem get_statistics_spec_witness:
  "list_all known_status (collection sample_library) \<and>
   total_books (get_statistics sample_library) = 3 \<and>
   genres (get_statistics sample_library) ''Fiction'' = Some 2 \<and>
   genres (get_statistics sample_library) ''Dystopian'' = Some 1 \<and>
   genres (get_statistics sample_library) ''Poetry'' = None \<and>
   authors (get_statistics sample_library) ''Harper Lee'' = Some 1 \<and>
   statuses (get_statistics sample_library) ''Unread'' = Some 1 \<and>
   statuses (get_statistics sample_library) ''Reading'' = Some 1 \<and>
   statuses (get_statistics sample_library) ''Completed'' = Some 1 \<and>
   statuses (get_statistics sample_library) ''Lost'' = None"
proof -
  have h: "\<forall>b\<in>set (collection sample_library). known_status b"
    by code_simp
  have l: "list_all known_status (collection sample_library)"
    by code_simp
  have n: "length (books sample_library) = 3"
    by code_simp
  have e: "''Fiction'' \<in> genre ` set (collection sample_library)"
    "''Dystopian'' \<in> genre ` set (collection sample_library)"
    "''Poetry'' \<notin> genre ` set (collection sample_library)"
    "''Harper Lee'' \<in> author ` set (collection sample_library)"
    by code_simp+
  have c: "length (filter (\<lambda>b. genre b = ''Fiction'') (collection sample_library)) = 2"
    "length (filter (\<lambda>b. genre b = ''Dystopian'') (collection sample_library)) = 1"
    "length (filter (\<lambda>b. author b = ''Harper Lee'') (collection sample_library)) = 1"
    "length (filter (\<lambda>b. status b = ''Unread'') (collection sample_library)) = 1"
    "length (filter (\<lambda>b. status b = ''Reading'') (collection sample_library)) = 1"
    "length (filter (\<lambda>b. status b = ''Completed'') (collection sample_library)) = 1"
    by code_simp+
  from get_statistics_spec [OF h] l n e c show ?thesis
    by simp
qed

subsection \<open>add_book\<close>

lemma add_book_fields:
  "books (add_book s book) = books s @ [book]"
  "heap (add_book s book) = heap s"
  "obj (add_book s book) = obj s"
  by (simp_all add: add_book_def save_library_fields notify_fields obj_books_update)

lemma foldl_add_book_fields:
  "books (foldl add_book s bs) = books s @ bs \<and> heap (foldl add_book s bs) = heap s"
  by (induction bs arbitrary: s) (simp_all add: add_book_fields)

lemma persisted_foldl_add_book: "bs \<noteq> [] \<Longrightarrow> persisted (foldl add_book s bs)"
proof (induction bs rule: rev_induct)
  case Nil
  then show ?case by simp
next
  case (snoc b bs)
  show ?case by (simp add: add_book_def persisted_save_library)
qed

text \<open>
  C9: \<open>add_book\<close> puts the Book at the end of the collection and persists; it has no
  exceptional result and checks nothing, duplicates included, and changes no Book.
  After any sequence of \<open>add_book\<close> calls, \<open>list_books\<close> without a filter returns the
  Books that were there before, followed by the added ones in the order in which they
  were added.
\<close>

theorem add_book_appends:
  "books (add_book s book) = books s @ [book] \<and> heap (add_book s book) = heap s \<and>
   persisted (add_book s book) \<and>
   books (foldl add_book s bs) = books s @ bs \<and> heap (foldl add_book s bs) = heap s \<and>
   collection (foldl add_book s bs) = collection s @ map (obj s) bs \<and>
   list_books (foldl add_book s bs) None None = Inr (books s @ bs) \<and>
   (bs \<noteq> [] \<longrightarrow> persisted (foldl add_book s bs))"
proof -
  have a: "books (add_book s book) = books s @ [book] \<and> heap (add_book s book) = heap s \<and>
      persisted (add_book s book)"
    by (simp add: add_book_fields) (simp add: add_book_def persisted_save_library)
  have b: "books (foldl add_book s bs) = books s @ bs \<and> heap (foldl add_book s bs) = heap s"
    by (rule foldl_add_book_fields)
  then have c: "collection (foldl add_book s bs) = collection s @ map (obj s) bs"
    by (simp add: collection_def obj_def)
  from b have d: "list_books (foldl add_book s bs) None None = Inr (books s @ bs)"
    by (simp add: list_books_def)
  from a b c d persisted_foldl_add_book [of bs s] show ?thesis by blast
qed

text \<open>Adding a Book that is listed already, and adding the three sample Books, to the sample shelf.\<close>

theorem add_book_appends_witness:
  "books (add_book shelf 1) = [0, 1, 2, 1] \<and>
   list_books (foldl add_book shelf [3, 4, 5]) None None = Inr [0, 1, 2, 3, 4, 5] \<and>
   collection (foldl add_book shelf [3, 4, 5]) =
     [dune_a, emma, dune_b] @ create_sample_books ''2025-03-11'' \<and>
   persisted (foldl add_book shelf [3, 4, 5])"
proof -
  have sh: "books shelf = [0, 1, 2]"
    by (simp add: shelf_def)
  have c: "collection shelf @ map (obj shelf) [3, 4, 5] =
      [dune_a, emma, dune_b] @ create_sample_books ''2025-03-11''"
    by code_simp
  have ne: "[3, 4, 5] \<noteq> ([] :: nat list)"
    by simp
  from add_book_appends [of shelf 1 "[3, 4, 5]"] sh c ne
  show ?thesis by simp
qed

subsection \<open>References stay valid\<close>

lemma valid_notify: "valid (notify n s) = valid s"
  by (simp add: valid_def notify_fields)

lemma valid_save_library: "valid (save_library s) = valid s"
  by (simp add: valid_def save_library_fields)

lemma valid_assign: "valid (assign book f s) = valid s"
  by (simp add: valid_def assign_fields)

lemma valid_LibraryManager: "LibraryManager today s = Inr s' \<Longrightarrow> valid s'"
  by (auto simp: LibraryManager_def load_library_def valid_def notify_def list_all_iff
      split: option.splits file_content.splits sum.splits)

lemma valid_add_book: "valid s \<Longrightarrow> book < length (heap s) \<Longrightarrow> valid (add_book s book)"
  by (simp add: valid_def add_book_fields)

lemma valid_remove_book: "valid s \<Longrightarrow> valid (snd (remove_book s t))"
  by (simp add: remove_book_def Let_def valid_save_library valid_notify)
    (simp add: valid_def list_all_iff)

lemma valid_updates:
  "valid s \<Longrightarrow> valid (snd (update_book_status s t v))"
  "valid s \<Longrightarrow> valid (snd (rate_book s t r))"
  "valid s \<Longrightarrow> valid (snd (add_notes s t n))"
  by (simp_all add: update_book_status_def rate_book_def add_notes_def Let_def
      valid_save_library valid_notify valid_assign split: option.split)

end
